theory Spec2Isabelle
  imports Complex_Main "HOL-Library.Log_Nat"
begin

section \<open>Risk sizing\<close>

text \<open>
  Prices, sizes and balances are Python floats in the source; they are modelled as
  real numbers, so rounding, infinities and NaN are outside this development.
  An argument that may be \<open>None\<close> is an \<open>option\<close>.  Python's truth test
  \<open>not x\<close> on such an argument holds for \<open>None\<close> and for \<open>0\<close>.
\<close>

definition falsy :: "real option \<Rightarrow> bool" where
  "falsy x = (case x of None \<Rightarrow> True | Some v \<Rightarrow> v = 0)"

text \<open>
  \<open>BacktestEngine._calculate_position_size\<close> (backtest_engine.py):
  the guard, then risk-based sizing capped at 20 percent of the balance, then the
  fall-through return when the risk per unit is not positive.
\<close>

definition backtest_calculate_position_size ::
  "real \<Rightarrow> real \<Rightarrow> real \<Rightarrow> real option \<Rightarrow> real option \<Rightarrow> real" where
  "backtest_calculate_position_size balance default_size risk_percentage entry_price stop_loss =
     (if falsy stop_loss \<or> falsy entry_price \<or> the stop_loss \<le> 0 \<or> the entry_price \<le> 0
      then min default_size (balance * 0.1)
      else
        let risk_per_unit = \<bar>the entry_price - the stop_loss\<bar> / the entry_price in
        if risk_per_unit > 0
        then
          let risk_amount = balance * (risk_percentage / 100);
              max_size = risk_amount / risk_per_unit
          in min max_size (balance * 0.2)
        else min default_size (balance * 0.1))"

text \<open>
  \<open>BitunixTradeManager._calculate_position_size\<close> (bitunix_api.py): it takes no
  balance; the guard and the fall-through return the base size itself.
\<close>

definition trade_manager_calculate_position_size ::
  "real \<Rightarrow> real \<Rightarrow> real option \<Rightarrow> real option \<Rightarrow> real" where
  "trade_manager_calculate_position_size base_size risk_percentage entry_price stop_loss =
     (if falsy stop_loss \<or> falsy entry_price \<or> the stop_loss \<le> 0 \<or> the entry_price \<le> 0
      then base_size
      else
        let risk_per_unit = \<bar>the entry_price - the stop_loss\<bar> / the entry_price in
        if risk_per_unit > 0
        then
          let max_size = (risk_percentage / 100) / risk_per_unit * base_size
          in min max_size (base_size * 5)
        else base_size)"

text \<open>The guard clause of both policies: a price is missing or non-positive.\<close>

definition missing_or_nonpositive :: "real option \<Rightarrow> bool" where
  "missing_or_nonpositive x = (case x of None \<Rightarrow> True | Some v \<Rightarrow> v \<le> 0)"

section \<open>Text, character classes and a backtracking matcher\<close>

text \<open>
  Signal texts are modelled as strings over 8-bit characters with the ASCII reading of
  the word, whitespace and digit classes of Python's \<open>re\<close> and of \<open>str.upper\<close>; a character outside
  ASCII is in none of the classes.
\<close>

definition digit_chars :: string where
  "digit_chars = ''0123456789''"

definition upper_chars :: string where
  "upper_chars = ''ABCDEFGHIJKLMNOPQRSTUVWXYZ''"

definition lower_chars :: string where
  "lower_chars = ''abcdefghijklmnopqrstuvwxyz''"

definition space_chars :: string where
  "space_chars = [CHR 0x20, CHR 0x09, CHR 0x0A, CHR 0x0B, CHR 0x0C, CHR 0x0D,
                  CHR 0x1C, CHR 0x1D, CHR 0x1E, CHR 0x1F]"

definition is_digit :: "char \<Rightarrow> bool" where
  "is_digit c = (c \<in> set digit_chars)"

definition is_space :: "char \<Rightarrow> bool" where
  "is_space c = (c \<in> set space_chars)"

definition is_word :: "char \<Rightarrow> bool" where
  "is_word c = (c \<in> set digit_chars \<or> c \<in> set upper_chars \<or> c \<in> set lower_chars \<or> c = CHR ''_'')"

definition to_upper :: "char \<Rightarrow> char" where
  "to_upper c = (case map_of (zip lower_chars upper_chars) c of Some u \<Rightarrow> u | None \<Rightarrow> c)"

definition to_lower :: "char \<Rightarrow> char" where
  "to_lower c = (case map_of (zip upper_chars lower_chars) c of Some l \<Rightarrow> l | None \<Rightarrow> c)"

text \<open>
  The patterns of the parser use literals, character classes under \<open>*\<close>, \<open>+\<close> and
  \<open>{m,n}\<close>, optional parts, alternatives, one capturing group and the word boundary.
\<close>

datatype regex =
    Lit string
  | Star "char \<Rightarrow> bool"
  | Plus "char \<Rightarrow> bool"
  | Rep nat nat "char \<Rightarrow> bool"
  | Opt regex
  | Seq regex regex
  | Alt regex regex
  | Group regex
  | WordB

text \<open>
  A position in the text is the character before it (if any) and the text after it;
  a matcher state adds the text captured by the group so far.
\<close>

type_synonym mstate = "char option \<times> string \<times> string option"

definition st_rest :: "mstate \<Rightarrow> string" where
  "st_rest st = fst (snd st)"

text \<open>With \<open>re.IGNORECASE\<close> a character matches when one of its cases does.\<close>

definition cls_match :: "bool \<Rightarrow> (char \<Rightarrow> bool) \<Rightarrow> char \<Rightarrow> bool" where
  "cls_match ic p c = (p c \<or> (ic \<and> (p (to_upper c) \<or> p (to_lower c))))"

definition chr_eq :: "bool \<Rightarrow> char \<Rightarrow> char \<Rightarrow> bool" where
  "chr_eq ic a c = (a = c \<or> (ic \<and> to_upper a = to_upper c))"

fun lit_match :: "bool \<Rightarrow> string \<Rightarrow> mstate \<Rightarrow> mstate list" where
  "lit_match ic [] st = [st]"
| "lit_match ic (a # as) (p, [], g) = []"
| "lit_match ic (a # as) (p, c # cs, g) =
     (if chr_eq ic a c then lit_match ic as (Some c, cs, g) else [])"

text \<open>
  The states after consuming 0, 1, 2, ... characters of a class, shortest first; a
  greedy quantifier tries them longest first.
\<close>

fun class_runs :: "bool \<Rightarrow> (char \<Rightarrow> bool) \<Rightarrow> mstate \<Rightarrow> mstate list" where
  "class_runs ic cl (p, [], g) = [(p, [], g)]"
| "class_runs ic cl (p, c # cs, g) =
     (p, c # cs, g) # (if cls_match ic cl c then class_runs ic cl (Some c, cs, g) else [])"

definition word_boundary :: "mstate \<Rightarrow> bool" where
  "word_boundary st =
     (let word_before = (case fst st of None \<Rightarrow> False | Some c \<Rightarrow> is_word c);
          word_after = (case st_rest st of [] \<Rightarrow> False | c # cs \<Rightarrow> is_word c)
      in word_before \<noteq> word_after)"

text \<open>
  All ways a pattern matches at a state, in the order in which a backtracking matcher
  tries them: the head of the list is the match that \<open>re\<close> reports.
\<close>

fun matches :: "bool \<Rightarrow> regex \<Rightarrow> mstate \<Rightarrow> mstate list" where
  "matches ic (Lit s) st = lit_match ic s st"
| "matches ic (Star cl) st = rev (class_runs ic cl st)"
| "matches ic (Plus cl) st = rev (tl (class_runs ic cl st))"
| "matches ic (Rep m n cl) st = rev (drop m (take (Suc n) (class_runs ic cl st)))"
| "matches ic (Opt r) st = matches ic r st @ [st]"
| "matches ic (Seq r1 r2) st = concat (map (matches ic r2) (matches ic r1 st))"
| "matches ic (Alt r1 r2) st = matches ic r1 st @ matches ic r2 st"
| "matches ic (Group r) st =
     map (\<lambda>st'. (fst st', st_rest st',
                  Some (take (length (st_rest st) - length (st_rest st')) (st_rest st))))
         (matches ic r st)"
| "matches ic WordB st = (if word_boundary st then [st] else [])"

fun seqs :: "regex list \<Rightarrow> regex" where
  "seqs [] = Lit []"
| "seqs [r] = r"
| "seqs (r # rs) = Seq r (seqs rs)"

text \<open>
  What a match yields: the text of the group when the pattern has one, as
  \<open>match.group(1)\<close> and \<open>re.findall\<close> with one group do, otherwise the matched text.
\<close>

definition match_text :: "string \<Rightarrow> mstate \<Rightarrow> string" where
  "match_text start st =
     (case snd (snd st) of
        Some g \<Rightarrow> g
      | None \<Rightarrow> take (length start - length (st_rest st)) start)"

text \<open>\<open>re.search\<close>: the first match at the leftmost position that has one.\<close>

fun search_from :: "bool \<Rightarrow> regex \<Rightarrow> char option \<Rightarrow> string \<Rightarrow> string option" where
  "search_from ic r p [] =
     (case matches ic r (p, [], None) of [] \<Rightarrow> None | m # ms \<Rightarrow> Some (match_text [] m))"
| "search_from ic r p (c # cs) =
     (case matches ic r (p, c # cs, None) of
        [] \<Rightarrow> search_from ic r (Some c) cs
      | m # ms \<Rightarrow> Some (match_text (c # cs) m))"

definition re_search :: "bool \<Rightarrow> regex \<Rightarrow> string \<Rightarrow> string option" where
  "re_search ic r text = search_from ic r None text"

text \<open>
  \<open>re.findall\<close>: the matches from left to right without overlap; \<open>skip\<close> counts the
  characters still covered by the previous match.  No pattern of the parser matches the
  empty string, so the search always resumes behind a match.
\<close>

fun findall_from :: "bool \<Rightarrow> regex \<Rightarrow> char option \<Rightarrow> string \<Rightarrow> nat \<Rightarrow> string list" where
  "findall_from ic r p [] skip =
     (if skip > 0 then []
      else case matches ic r (p, [], None) of [] \<Rightarrow> [] | m # ms \<Rightarrow> [match_text [] m])"
| "findall_from ic r p (c # cs) skip =
     (if skip > 0 then findall_from ic r (Some c) cs (skip - 1)
      else case matches ic r (p, c # cs, None) of
             [] \<Rightarrow> findall_from ic r (Some c) cs 0
           | m # ms \<Rightarrow>
               match_text (c # cs) m #
               findall_from ic r (Some c) cs (length (c # cs) - length (st_rest m) - 1))"

definition re_findall :: "bool \<Rightarrow> regex \<Rightarrow> string \<Rightarrow> string list" where
  "re_findall ic r text = findall_from ic r None text 0"

section \<open>The signal parser\<close>

subsection \<open>Python's number conversions and string helpers\<close>

text \<open>The value of a digit is its position among the digits.\<close>

definition digit_val :: "char \<Rightarrow> nat" where
  "digit_val c = length (takeWhile (\<lambda>d. d \<noteq> c) digit_chars)"

definition nat_of_digits :: "string \<Rightarrow> nat" where
  "nat_of_digits s = foldl (\<lambda>a c. 10 * a + digit_val c) 0 s"

text \<open>
  \<open>int(s)\<close> on a token: \<open>None\<close> stands for \<open>ValueError\<close>.  A token of digits is
  refused when it has more than 4300 digits (CPython's default limit for the conversion
  of integer strings).
\<close>

definition py_int :: "string \<Rightarrow> int option" where
  "py_int s =
     (if s \<noteq> [] \<and> list_all is_digit s \<and> length s \<le> 4300
      then Some (int (nat_of_digits s)) else None)"

text \<open>
  \<open>float(s)\<close> on a token made of digits and dots, the only tokens the patterns hand
  to it: digits with an optional fraction, or a fraction alone; \<open>None\<close> stands for
  \<open>ValueError\<close>.
\<close>

definition py_float :: "string \<Rightarrow> real option" where
  "py_float s =
     (let ip = takeWhile is_digit s; r = dropWhile is_digit s in
      case r of
        [] \<Rightarrow> (if ip = [] then None else Some (real (nat_of_digits ip)))
      | c # fp \<Rightarrow>
          (if c = CHR ''.'' \<and> list_all is_digit fp \<and> (ip \<noteq> [] \<or> fp \<noteq> [])
           then Some (real (nat_of_digits ip) + real (nat_of_digits fp) / 10 ^ length fp)
           else None))"

definition strip :: "string \<Rightarrow> string" where
  "strip s = rev (dropWhile is_space (rev (dropWhile is_space s)))"

definition remove_commas :: "string \<Rightarrow> string" where
  "remove_commas s = filter (\<lambda>c. c \<noteq> CHR '','') s"

text \<open>\<open>s.split(sep)\<close> for a separator of one character.\<close>

fun split_on :: "char \<Rightarrow> string \<Rightarrow> string list" where
  "split_on sep [] = [[]]"
| "split_on sep (c # cs) =
     (if c = sep then [] # split_on sep cs
      else (case split_on sep cs of
              [] \<Rightarrow> [[c]]
            | p # ps \<Rightarrow> (c # p) # ps))"

subsection \<open>Cleaning\<close>

text \<open>
  \<open>_clean_text\<close>: every character that is neither a word character, nor whitespace,
  nor one of \<open># $ / . : -\<close> becomes a space; each run of whitespace becomes one
  space; the result is stripped and upper-cased.
\<close>

definition kept_char :: "char \<Rightarrow> bool" where
  "kept_char c = (is_word c \<or> is_space c \<or> c \<in> set ''#$/.:-'')"

fun collapse_from :: "bool \<Rightarrow> string \<Rightarrow> string" where
  "collapse_from in_run [] = []"
| "collapse_from in_run (c # cs) =
     (if is_space c
      then (if in_run then collapse_from True cs else CHR '' '' # collapse_from True cs)
      else c # collapse_from False cs)"

definition collapse_spaces :: "string \<Rightarrow> string" where
  "collapse_spaces s = collapse_from False s"

definition clean_text :: "string \<Rightarrow> string" where
  "clean_text text =
     (let text = map (\<lambda>c. if kept_char c then c else CHR '' '') text;
          text = collapse_spaces text
      in map to_upper (strip text))"

subsection \<open>The pattern lists\<close>

definition colon_or_space :: "char \<Rightarrow> bool" where
  "colon_or_space c = (c = CHR '':'' \<or> is_space c)"

definition number_char :: "char \<Rightarrow> bool" where
  "number_char c = (is_digit c \<or> c = CHR '','' \<or> c = CHR ''.'')"

definition target_char :: "char \<Rightarrow> bool" where
  "target_char c = (is_digit c \<or> c = CHR '','' \<or> c = CHR ''.'' \<or> is_space c \<or> c = CHR ''-'')"

definition is_char :: "char \<Rightarrow> char \<Rightarrow> bool" where
  "is_char a c = (c = a)"

text \<open>The group of every leverage pattern: one or more digits.\<close>

definition digits_group :: regex where
  "digits_group = Group (Plus is_digit)"

definition leverage_patterns :: "regex list" where
  "leverage_patterns =
     [seqs [Lit ''Leverage'', Star colon_or_space, digits_group, Opt (Lit ''x'')],
      seqs [Lit ''Cross'', Star colon_or_space, digits_group, Opt (Lit ''x'')],
      seqs [digits_group, Lit ''x'', Star is_space, Lit ''Cross''],
      seqs [digits_group, Lit ''x'', Star is_space, Lit ''Leverage''],
      seqs [Lit ''Lev'', Star colon_or_space, digits_group]]"

text \<open>
  The group of every entry pattern: a run of digits, commas and dots, optionally
  followed by a dash (with whitespace around it) and a second such run.
\<close>

definition range_group :: regex where
  "range_group =
     Group (Seq (Plus number_char)
                (Opt (seqs [Star is_space, Lit ''-'', Star is_space, Plus number_char])))"

definition entry_patterns :: "regex list" where
  "entry_patterns =
     [seqs [Lit ''Entry'', Star colon_or_space, range_group],
      seqs [Lit ''Entry Zone'', Star colon_or_space, range_group],
      seqs [Lit ''Buy'', Star colon_or_space, range_group],
      seqs [Lit ''Enter'', Star colon_or_space, range_group],
      seqs [Lit ''Price'', Star colon_or_space, range_group]]"

definition target_patterns :: "regex list" where
  "target_patterns =
     [seqs [Lit ''Target'', Opt (Rep 1 1 (is_char CHR ''s'')), Star colon_or_space,
            Group (Plus target_char)],
      seqs [Lit ''TP'', Opt (Rep 1 1 (is_char CHR ''s'')), Star colon_or_space,
            Group (Plus target_char)],
      seqs [Lit ''Take Profit'', Opt (Rep 1 1 (is_char CHR ''s'')), Star colon_or_space,
            Group (Plus target_char)],
      seqs [Lit ''Sell'', Star colon_or_space, Group (Plus target_char)]]"

text \<open>
  A number token: digits, an optional dot, then digits again; the fallback of the entry
  zones looks for it between word boundaries.
\<close>

definition number_token :: regex where
  "number_token = seqs [Plus is_digit, Opt (Lit ''.''), Star is_digit]"

definition bounded_number_token :: regex where
  "bounded_number_token = seqs [WordB, Plus is_digit, Opt (Lit ''.''), Star is_digit, WordB]"

subsection \<open>Extraction\<close>

definition clamp_leverage :: "int \<Rightarrow> int" where
  "clamp_leverage leverage = min (max leverage 1) 100"

text \<open>
  \<open>_extract_leverage\<close>: the patterns in order; a match whose token does not convert
  passes on to the next pattern; 1 when no pattern yields a value.
\<close>

fun leverage_from :: "regex list \<Rightarrow> string \<Rightarrow> int" where
  "leverage_from [] text = 1"
| "leverage_from (pattern # patterns) text =
     (case re_search True pattern text of
        None \<Rightarrow> leverage_from patterns text
      | Some token \<Rightarrow>
          (case py_int token of
             Some leverage \<Rightarrow> clamp_leverage leverage
           | None \<Rightarrow> leverage_from patterns text))"

definition extract_leverage :: "string \<Rightarrow> int" where
  "extract_leverage text = leverage_from leverage_patterns text"

text \<open>
  What one match of an entry pattern appends to \<open>entries\<close>: three points for a
  range with one dash, one point for a single value, nothing when a conversion fails.
\<close>

definition entry_points :: "string \<Rightarrow> real list" where
  "entry_points m =
     (if CHR ''-'' \<in> set m
      then
        let parts = split_on CHR ''-'' m in
        if length parts = 2
        then
          (case py_float (remove_commas (strip (parts ! 0))) of
             None \<Rightarrow> []
           | Some start \<Rightarrow>
               (case py_float (remove_commas (strip (parts ! 1))) of
                  None \<Rightarrow> []
                | Some end \<Rightarrow>
                    let step = (end - start) / 2 in [start, start + step, end]))
        else []
      else
        (case py_float (remove_commas (strip m)) of
           None \<Rightarrow> []
         | Some entry \<Rightarrow> [entry]))"

text \<open>The pool of the entry rule list, before duplicates are removed.\<close>

definition entry_pool :: "string \<Rightarrow> real list" where
  "entry_pool text =
     concat (map (\<lambda>pattern. concat (map entry_points (re_findall True pattern text)))
                 entry_patterns)"

definition plausible_price :: "real \<Rightarrow> bool" where
  "plausible_price val = (1 / 1000000 < val \<and> val < 1000000)"

text \<open>The fallback: every number token of the text that is a plausible price, in text order.\<close>

definition fallback_entries :: "string \<Rightarrow> real list" where
  "fallback_entries text =
     filter plausible_price
       (concat (map (\<lambda>num. case py_float num of None \<Rightarrow> [] | Some val \<Rightarrow> [val])
                    (re_findall False bounded_number_token text)))"

definition extract_entry_zones :: "string \<Rightarrow> real list" where
  "extract_entry_zones text =
     (let entries = sorted_list_of_set (set (entry_pool text));
          entries = (if entries = [] then fallback_entries text else entries)
      in take 5 entries)"

text \<open>
  \<open>_extract_targets\<close>: the first match of every pattern contributes the positive
  numbers found in its group.
\<close>

definition target_numbers :: "string \<Rightarrow> real list" where
  "target_numbers target_text =
     filter (\<lambda>target. target > 0)
       (concat (map (\<lambda>num. case py_float num of None \<Rightarrow> [] | Some val \<Rightarrow> [val])
                    (re_findall False number_token target_text)))"

definition target_pool :: "string \<Rightarrow> real list" where
  "target_pool text =
     concat (map (\<lambda>pattern. case re_search True pattern text of
                               None \<Rightarrow> []
                             | Some target_text \<Rightarrow> target_numbers target_text)
                 target_patterns)"

definition extract_targets :: "string \<Rightarrow> real list" where
  "extract_targets text = take 5 (sorted_list_of_set (set (target_pool text)))"

subsection \<open>Coin, side, stop and margin mode\<close>

definition coin_group :: regex where
  "coin_group = Group (Rep 3 6 (\<lambda>c. c \<in> set upper_chars))"

definition coin_patterns :: "regex list" where
  "coin_patterns =
     [seqs [Lit ''#'', coin_group, Lit ''/USDT''],
      seqs [Lit ''#'', coin_group, Lit ''USDT''],
      seqs [Lit ''#'', coin_group],
      seqs [Lit ''$'', coin_group],
      seqs [coin_group, Lit ''/USDT''],
      seqs [coin_group, Lit ''USDT''],
      seqs [Lit ''Coin'', Star colon_or_space, coin_group],
      seqs [Lit ''Symbol'', Star colon_or_space, coin_group]]"

definition is_alpha :: "string \<Rightarrow> bool" where
  "is_alpha s = (s \<noteq> [] \<and> list_all (\<lambda>c. c \<in> set upper_chars \<or> c \<in> set lower_chars) s)"

fun coin_from :: "regex list \<Rightarrow> string \<Rightarrow> string option" where
  "coin_from [] text = None"
| "coin_from (pattern # patterns) text =
     (case re_search True pattern text of
        None \<Rightarrow> coin_from patterns text
      | Some g \<Rightarrow>
          (let coin = map to_upper g in
           if 3 \<le> length coin \<and> length coin \<le> 6 \<and> is_alpha coin then Some coin
           else coin_from patterns text))"

definition extract_coin :: "string \<Rightarrow> string option" where
  "extract_coin text = coin_from coin_patterns text"

definition long_or_short :: regex where
  "long_or_short = Group (Alt (Lit ''LONG'') (Lit ''SHORT''))"

text \<open>The last two patterns start with the chart emojis, written here as their UTF-8 bytes.\<close>

definition position_patterns :: "regex list" where
  "position_patterns =
     [seqs [Alt (Lit ''Position'') (Alt (Lit ''Direction'') (Lit ''Type'')),
            Star colon_or_space, long_or_short],
      seqs [long_or_short, Opt (Seq (Plus is_space) (Lit ''Position''))],
      seqs [Lit ''#'', long_or_short],
      seqs [Lit [CHR 0xF0, CHR 0x9F, CHR 0x93, CHR 0x88], Star is_space, Group (Lit ''LONG'')],
      seqs [Lit [CHR 0xF0, CHR 0x9F, CHR 0x93, CHR 0x89], Star is_space, Group (Lit ''SHORT'')]]"

fun position_type_from :: "regex list \<Rightarrow> string \<Rightarrow> string option" where
  "position_type_from [] text = None"
| "position_type_from (pattern # patterns) text =
     (case re_search True pattern text of
        None \<Rightarrow> position_type_from patterns text
      | Some g \<Rightarrow> Some (map to_upper g))"

definition extract_position_type :: "string \<Rightarrow> string option" where
  "extract_position_type text = position_type_from position_patterns text"

definition stoploss_patterns :: "regex list" where
  "stoploss_patterns =
     [seqs [Lit ''Stop Loss'', Star colon_or_space, Group (Plus number_char)],
      seqs [Lit ''SL'', Star colon_or_space, Group (Plus number_char)],
      seqs [Lit ''Stop'', Star colon_or_space, Group (Plus number_char)],
      seqs [Lit ''Loss'', Star colon_or_space, Group (Plus number_char)]]"

fun stop_loss_from :: "regex list \<Rightarrow> string \<Rightarrow> real option" where
  "stop_loss_from [] text = None"
| "stop_loss_from (pattern # patterns) text =
     (case re_search True pattern text of
        None \<Rightarrow> stop_loss_from patterns text
      | Some g \<Rightarrow>
          (case py_float (remove_commas g) of
             Some sl \<Rightarrow> Some sl
           | None \<Rightarrow> stop_loss_from patterns text))"

definition extract_stop_loss :: "string \<Rightarrow> real option" where
  "extract_stop_loss text = stop_loss_from stoploss_patterns text"

definition detect_cross_leverage :: "string \<Rightarrow> bool" where
  "detect_cross_leverage text =
     list_ex (\<lambda>pattern. re_search True pattern text \<noteq> None)
       [Lit ''CROSS'', Lit ''Cross Leverage'', Lit ''Cross Margin'']"

subsection \<open>Validation, parsing, batches\<close>

definition validate_signal :: "string option \<Rightarrow> string option \<Rightarrow> real list \<Rightarrow> string list" where
  "validate_signal coin position_type entry_zones =
     (let errors = [];
          errors = (if coin = None \<or> coin = Some [] then errors @ [''No coin symbol found'']
                    else errors);
          errors = (if position_type = None \<or> position_type = Some []
                    then errors @ [''No position type (LONG/SHORT) found''] else errors);
          errors = (if entry_zones = [] then errors @ [''No entry zones found''] else errors)
      in errors)"

text \<open>
  What a caller hands to \<open>parse_signal\<close>: a text, or an object that is no string, on
  which the first substitution of \<open>_clean_text\<close> raises; it carries the message of
  that exception.
\<close>

datatype signal_input = Text string | NonText string

record signal =
  sig_raw_text :: string
  sig_coin :: "string option"
  sig_pair :: string
  sig_position_type :: "string option"
  sig_entry_zones :: "real list"
  sig_leverage :: int
  sig_cross_leverage :: bool
  sig_targets :: "real list"
  sig_stop_loss :: "real option"
  sig_parse_errors :: "string list"
  sig_parsed_successfully :: bool

text \<open>
  The dictionary \<open>parse_signal\<close> returns: the full one, or the one of the exception
  handler, which has the raw input, the errors and the flag only.
\<close>

datatype parse_result =
    Parsed signal
  | ParseFailed signal_input "string list" bool

definition parse_errors :: "parse_result \<Rightarrow> string list" where
  "parse_errors r = (case r of Parsed s \<Rightarrow> sig_parse_errors s | ParseFailed raw errs ok \<Rightarrow> errs)"

definition parsed_successfully :: "parse_result \<Rightarrow> bool" where
  "parsed_successfully r =
     (case r of Parsed s \<Rightarrow> sig_parsed_successfully s | ParseFailed raw errs ok \<Rightarrow> ok)"

definition parse_signal :: "signal_input \<Rightarrow> parse_result" where
  "parse_signal inp =
     (case inp of
        NonText msg \<Rightarrow> ParseFailed inp [''Parsing failed: '' @ msg] False
      | Text text \<Rightarrow>
          let cleaned_text = clean_text text;
              coin = extract_coin cleaned_text;
              position_type = extract_position_type cleaned_text;
              leverage = extract_leverage cleaned_text;
              entry_zones = extract_entry_zones cleaned_text;
              targets = extract_targets cleaned_text;
              stop_loss = extract_stop_loss cleaned_text;
              cross_leverage = detect_cross_leverage cleaned_text;
              errors = validate_signal coin position_type entry_zones
          in Parsed \<lparr> sig_raw_text = text, sig_coin = coin, sig_pair = ''USDT'',
                      sig_position_type = position_type, sig_entry_zones = entry_zones,
                      sig_leverage = leverage, sig_cross_leverage = cross_leverage,
                      sig_targets = targets, sig_stop_loss = stop_loss,
                      sig_parse_errors = errors,
                      sig_parsed_successfully = (length errors = 0) \<rparr>)"

text \<open>\<open>batch_parse_signals\<close>: the loop appends one result per input.\<close>

fun batch_loop :: "parse_result list \<Rightarrow> signal_input list \<Rightarrow> parse_result list" where
  "batch_loop results [] = results"
| "batch_loop results (signal_text # signals) =
     batch_loop (results @ [parse_signal signal_text]) signals"

definition batch_parse_signals :: "signal_input list \<Rightarrow> parse_result list" where
  "batch_parse_signals signals = batch_loop [] signals"

section \<open>The backtest engine\<close>

text \<open>
  A row of the price history: the index of the data frame (a time stamp) and the
  columns the engine reads.  The frame is the list of its rows in index order.
\<close>

record candle =
  c_timestamp :: int
  c_open :: real
  c_high :: real
  c_low :: real
  c_close :: real

text \<open>
  \<open>_find_exit_point\<close>.  The inner loop over the targets of one row, the loop over
  the rows after the entry, and the function itself; \<open>None\<close> stands for the triple
  of \<open>None\<close>s the source returns when no row lies after the entry time.
\<close>

fun first_target_hit :: "string option \<Rightarrow> candle \<Rightarrow> real list \<Rightarrow> real option" where
  "first_target_hit position_type row [] = None"
| "first_target_hit position_type row (target # targets) =
     (if position_type = Some ''LONG'' \<and> c_high row \<ge> target then Some target
      else if position_type = Some ''SHORT'' \<and> c_low row \<le> target then Some target
      else first_target_hit position_type row targets)"

fun exit_scan ::
  "candle list \<Rightarrow> real list \<Rightarrow> real option \<Rightarrow> string option \<Rightarrow> (real \<times> int \<times> string) option" where
  "exit_scan [] targets stop_loss position_type = None"
| "exit_scan (row # rows) targets stop_loss position_type =
     (if \<not> falsy stop_loss \<and> position_type = Some ''LONG'' \<and> c_low row \<le> the stop_loss
      then Some (the stop_loss, c_timestamp row, ''stop_loss'')
      else if \<not> falsy stop_loss \<and> position_type = Some ''SHORT'' \<and> c_high row \<ge> the stop_loss
      then Some (the stop_loss, c_timestamp row, ''stop_loss'')
      else
        (case first_target_hit position_type row targets of
           Some target \<Rightarrow> Some (target, c_timestamp row, ''target'')
         | None \<Rightarrow> exit_scan rows targets stop_loss position_type))"

definition rows_after :: "int \<Rightarrow> candle list \<Rightarrow> candle list" where
  "rows_after entry_time data = filter (\<lambda>row. c_timestamp row > entry_time) data"

definition find_exit_point ::
  "candle list \<Rightarrow> int \<Rightarrow> real list \<Rightarrow> real option \<Rightarrow> string option
     \<Rightarrow> (real \<times> int \<times> string) option" where
  "find_exit_point data entry_time targets stop_loss position_type =
     (let exit_data = rows_after entry_time data in
      if exit_data = [] then None
      else
        (case exit_scan exit_data targets stop_loss position_type of
           Some found \<Rightarrow> Some found
         | None \<Rightarrow>
             let last_row = last exit_data
             in Some (c_close last_row, c_timestamp last_row, ''timeout'')))"

text \<open>
  The conditions of the exit search in the words of the specification: a row hits the
  stop (a stop that is set and not zero), a row hits a target, a row hits anything.
\<close>

definition stop_hit :: "string option \<Rightarrow> real option \<Rightarrow> candle \<Rightarrow> bool" where
  "stop_hit position_type stop_loss row =
     (case stop_loss of
        None \<Rightarrow> False
      | Some stop \<Rightarrow>
          stop \<noteq> 0 \<and> ((position_type = Some ''LONG'' \<and> c_low row \<le> stop)
                      \<or> (position_type = Some ''SHORT'' \<and> c_high row \<ge> stop)))"

definition target_hit :: "string option \<Rightarrow> candle \<Rightarrow> real \<Rightarrow> bool" where
  "target_hit position_type row target =
     ((position_type = Some ''LONG'' \<and> c_high row \<ge> target)
      \<or> (position_type = Some ''SHORT'' \<and> c_low row \<le> target))"

definition row_hit :: "string option \<Rightarrow> real option \<Rightarrow> real list \<Rightarrow> candle \<Rightarrow> bool" where
  "row_hit position_type stop_loss targets row =
     (stop_hit position_type stop_loss row \<or> list_ex (target_hit position_type row) targets)"

subsection \<open>Metrics and the report\<close>

text \<open>The entries of a trade dictionary and of a point of the equity curve.\<close>

record trade =
  t_symbol :: string
  t_position_type :: "string option"
  t_entry_price :: real
  t_exit_price :: real
  t_entry_time :: int
  t_exit_time :: int
  t_position_size :: real
  t_leverage :: int
  t_pnl :: real
  t_exit_reason :: string

record equity_point =
  e_timestamp :: int
  e_balance :: real
  e_trade_pnl :: real

text \<open>
  The dictionary of \<open>_calculate_metrics\<close>; the four last entries are absent from the
  one returned for an empty history and from the one of the exception handler.
\<close>

record metrics =
  m_max_drawdown :: real
  m_sharpe_ratio :: real
  m_average_trade :: real
  m_profit_factor :: real
  m_gross_profit :: "real option"
  m_gross_loss :: "real option"
  m_largest_win :: "real option"
  m_largest_loss :: "real option"

definition zero_metrics :: metrics where
  "zero_metrics =
     \<lparr> m_max_drawdown = 0, m_sharpe_ratio = 0, m_average_trade = 0, m_profit_factor = 0,
       m_gross_profit = None, m_gross_loss = None, m_largest_win = None,
       m_largest_loss = None \<rparr>"

text \<open>
  The drawdown loop.  A division by a zero peak raises \<open>ZeroDivisionError\<close>, which is
  \<open>None\<close> here.
\<close>

fun drawdown_loop :: "real \<Rightarrow> real \<Rightarrow> real list \<Rightarrow> real option" where
  "drawdown_loop peak max_drawdown [] = Some max_drawdown"
| "drawdown_loop peak max_drawdown (v # values) =
     (let peak = (if v > peak then v else peak) in
      if peak = 0 then None
      else
        let drawdown = (peak - v) / peak * 100
        in drawdown_loop peak (max max_drawdown drawdown) values)"

text \<open>
  The drawdowns in the words of the specification: the running peak only moves up, and
  the drawdown at each point is \<open>(peak - value) / peak * 100\<close>.
\<close>

fun drawdowns :: "real \<Rightarrow> real list \<Rightarrow> real list" where
  "drawdowns peak [] = []"
| "drawdowns peak (v # values) =
     (max peak v - v) / max peak v * 100 # drawdowns (max peak v) values"

text \<open>The per-step returns; a step from a zero equity value raises.\<close>

fun returns_loop :: "real list \<Rightarrow> real list option" where
  "returns_loop (prev # cur # values) =
     (if prev = 0 then None
      else
        (case returns_loop (cur # values) of
           None \<Rightarrow> None
         | Some returns \<Rightarrow> Some ((cur - prev) / prev # returns)))"
| "returns_loop values = Some []"

subsection \<open>Double precision\<close>

text \<open>
  Whether a Sharpe ratio is computed at all is decided by comparing a computed standard
  deviation with zero, so the rounding of numpy's arithmetic matters there and is
  modelled.  A double is a real number with a significand of 53 bits; every operation
  returns the double nearest to the exact result, a tie going to the even significand.
  The exponent range is unbounded here: overflow, underflow, infinities and NaN are not
  modelled.
\<close>

text \<open>The exponent of the power of two at or below a positive number.\<close>

definition binade :: "real \<Rightarrow> int" where
  "binade x = (if 1 \<le> x then bitlen \<lfloor>x\<rfloor> - 1 else - bitlen (\<lceil>1 / x\<rceil> - 1))"

definition round_half_even :: "real \<Rightarrow> int" where
  "round_half_even y =
     (let n = \<lfloor>y\<rfloor>; r = y - of_int n in
      if r < 1 / 2 then n else if 1 / 2 < r then n + 1 else if even n then n else n + 1)"

text \<open>The nearest double.\<close>

definition fl :: "real \<Rightarrow> real" where
  "fl x =
     (if x = 0 then 0
      else
        let e = binade \<bar>x\<bar> - 52
        in sgn x * (of_int (round_half_even (\<bar>x\<bar> / 2 powi e)) * 2 powi e))"

definition fadd :: "real \<Rightarrow> real \<Rightarrow> real" where
  "fadd a b = fl (a + b)"

definition fsub :: "real \<Rightarrow> real \<Rightarrow> real" where
  "fsub a b = fl (a - b)"

definition fmul :: "real \<Rightarrow> real \<Rightarrow> real" where
  "fmul a b = fl (a * b)"

definition fdiv :: "real \<Rightarrow> real \<Rightarrow> real" where
  "fdiv a b = fl (a / b)"

definition fsqrt :: "real \<Rightarrow> real" where
  "fsqrt a = fl (sqrt a)"

text \<open>
  numpy's sum of an array of doubles.  Fewer than eight elements are added in order.  Up
  to 128 elements are added into eight running sums, block of eight after block of
  eight; the running sums are combined pairwise and the elements left over are added in
  order.  A longer array is split into two parts, the first of a length that is a
  multiple of eight, and the sums of the parts are added.
\<close>

definition block_sum :: "real list \<Rightarrow> real" where
  "block_sum xs =
     (let n = length xs;
          m = n - n mod 8;
          r = foldl (\<lambda>r k. map2 fadd r (take 8 (drop (8 * k) xs))) (take 8 xs) [1 ..< m div 8];
          res = fadd (fadd (fadd (r ! 0) (r ! 1)) (fadd (r ! 2) (r ! 3)))
                     (fadd (fadd (r ! 4) (r ! 5)) (fadd (r ! 6) (r ! 7)))
      in foldl fadd res (drop m xs))"

function pairwise_sum :: "real list \<Rightarrow> real" where
  "pairwise_sum xs =
     (if length xs < 8 then foldl fadd 0 xs
      else if length xs \<le> 128 then block_sum xs
      else fadd (pairwise_sum (take (length xs div 2 - length xs div 2 mod 8) xs))
                (pairwise_sum (drop (length xs div 2 - length xs div 2 mod 8) xs)))"
  by pat_completeness auto
termination
  by (relation "measure length") auto

declare pairwise_sum.simps [simp del]

text \<open>
  \<open>numpy.mean\<close> and \<open>numpy.std\<close> of a list: the list becomes an array of doubles;
  the mean is the sum divided by the count; the standard deviation is the square root
  of the mean of the squared differences from the mean.  Both are called on non-empty
  lists only.  The equity values and the per-step returns are kept as reals up to this
  point; each return is rounded to the nearest double where it enters the array.
\<close>

definition np_array :: "real list \<Rightarrow> real list" where
  "np_array xs = map fl xs"

definition np_mean :: "real list \<Rightarrow> real" where
  "np_mean xs = fdiv (pairwise_sum (np_array xs)) (real (length xs))"

definition np_std :: "real list \<Rightarrow> real" where
  "np_std xs =
     (let arr = np_array xs;
          arrmean = fdiv (pairwise_sum arr) (real (length xs));
          x = map (\<lambda>v. fsub v arrmean) arr;
          x = map (\<lambda>v. fmul v v) x;
          ret = fdiv (pairwise_sum x) (real (length xs))
      in fsqrt ret)"

definition equity_values :: "real \<Rightarrow> equity_point list \<Rightarrow> real list" where
  "equity_values initial_balance equity_curve = initial_balance # map e_balance equity_curve"

definition calculate_metrics ::
  "trade list \<Rightarrow> real \<Rightarrow> real \<Rightarrow> equity_point list \<Rightarrow> metrics" where
  "calculate_metrics trade_history initial_balance final_balance equity_curve =
     (if trade_history = [] then zero_metrics
      else
        let values = equity_values initial_balance equity_curve in
        case drawdown_loop (hd values) 0 values of
          None \<Rightarrow> zero_metrics
        | Some max_drawdown \<Rightarrow>
            (case returns_loop values of
               None \<Rightarrow> zero_metrics
             | Some returns \<Rightarrow>
                 let sharpe_ratio =
                       (if returns \<noteq> [] \<and> np_std returns > 0
                        then fmul (fdiv (np_mean returns) (np_std returns)) (fsqrt 252)
                        else 0);
                     trade_pnls = map t_pnl trade_history;
                     winning_trades = filter (\<lambda>pnl. pnl > 0) trade_pnls;
                     losing_trades = filter (\<lambda>pnl. pnl \<le> 0) trade_pnls;
                     average_trade = np_mean trade_pnls;
                     gross_profit = (if winning_trades \<noteq> [] then sum_list winning_trades else 0);
                     gross_loss = (if losing_trades \<noteq> [] then \<bar>sum_list losing_trades\<bar> else 0);
                     profit_factor = (if gross_loss > 0 then gross_profit / gross_loss else 0)
                 in \<lparr> m_max_drawdown = max_drawdown, m_sharpe_ratio = sharpe_ratio,
                      m_average_trade = average_trade, m_profit_factor = profit_factor,
                      m_gross_profit = Some gross_profit, m_gross_loss = Some gross_loss,
                      m_largest_win =
                        Some (if winning_trades \<noteq> [] then Max (set winning_trades) else 0),
                      m_largest_loss =
                        Some (if losing_trades \<noteq> [] then Min (set losing_trades) else 0) \<rparr>))"

text \<open>
  The end of \<open>run_backtest\<close>: from the history, the balance and the equity curve the
  loop over the signals has built, the result dictionary.  The percentage divides by the
  initial balance; that exception is raised again to the caller (\<open>Inl\<close>).
\<close>

record report =
  r_initial_balance :: real
  r_final_balance :: real
  r_total_pnl :: real
  r_total_pnl_percentage :: real
  r_total_trades :: nat
  r_winning_trades :: nat
  r_losing_trades :: nat
  r_win_rate :: real
  r_max_drawdown :: real
  r_sharpe_ratio :: real
  r_trade_history :: "trade list"
  r_equity_curve :: "equity_point list"
  r_metrics :: metrics

definition backtest_report ::
  "trade list \<Rightarrow> real \<Rightarrow> real \<Rightarrow> equity_point list \<Rightarrow> string + report" where
  "backtest_report trade_history initial_balance balance equity_curve =
     (let metrics = calculate_metrics trade_history initial_balance balance equity_curve in
      if initial_balance = 0 then Inl ''float division by zero''
      else Inr
        \<lparr> r_initial_balance = initial_balance,
          r_final_balance = balance,
          r_total_pnl = balance - initial_balance,
          r_total_pnl_percentage = ((balance - initial_balance) / initial_balance) * 100,
          r_total_trades = length trade_history,
          r_winning_trades = (\<Sum>t \<leftarrow> filter (\<lambda>t. t_pnl t > 0) trade_history. 1),
          r_losing_trades = (\<Sum>t \<leftarrow> filter (\<lambda>t. t_pnl t \<le> 0) trade_history. 1),
          r_win_rate =
            (if trade_history \<noteq> []
             then real (\<Sum>t \<leftarrow> filter (\<lambda>t. t_pnl t > 0) trade_history. 1)
                    / real (length trade_history) * 100
             else 0),
          r_max_drawdown = m_max_drawdown metrics,
          r_sharpe_ratio = m_sharpe_ratio metrics,
          r_trade_history = trade_history,
          r_equity_curve = equity_curve,
          r_metrics = metrics \<rparr>)"

text \<open>Sample data: a trade and an equity point that differ by their result only.\<close>

definition trade_with_pnl :: "real \<Rightarrow> trade" where
  "trade_with_pnl pnl =
     \<lparr> t_symbol = ''BTCUSDT'', t_position_type = Some ''LONG'', t_entry_price = 100,
       t_exit_price = 100 + pnl / 10, t_entry_time = 1, t_exit_time = 2,
       t_position_size = 1000, t_leverage = 1, t_pnl = pnl, t_exit_reason = ''target'' \<rparr>"

definition equity_at :: "real \<Rightarrow> real \<Rightarrow> equity_point" where
  "equity_at balance pnl = \<lparr> e_timestamp = 2, e_balance = balance, e_trade_pnl = pnl \<rparr>"

section \<open>Live execution\<close>

text \<open>
  The calls the trade manager makes on the exchange API.  The exchange is a function
  from the calls made so far and the next call to its outcome: \<open>Inl\<close> is the message
  of the exception the call raises, \<open>Inr\<close> the response.  The trace of calls is the
  state the manager threads through.
\<close>

record order_request =
  o_symbol :: string
  o_side :: string
  o_order_type :: string
  o_size :: real
  o_price :: real
  o_reduce_only :: bool

datatype api_call =
    SetLeverage string int string
  | PlaceOrder order_request

type_synonym 'r gateway = "api_call list \<Rightarrow> api_call \<Rightarrow> string + 'r"

record settings =
  default_position_size :: "real option"
  risk_percentage :: "real option"
  default_leverage :: "int option"
  entry_distribution :: "real list option"
  target_distribution :: "real list option"

definition get_or :: "'a option \<Rightarrow> 'a \<Rightarrow> 'a" where
  "get_or x d = (case x of None \<Rightarrow> d | Some v \<Rightarrow> v)"

text \<open>
  The loop of \<open>_place_entry_orders\<close> and \<open>_place_target_orders\<close>: every request is
  sent; a response is appended, an exception is logged and dropped.
\<close>

fun place_loop ::
  "'r gateway \<Rightarrow> api_call list \<Rightarrow> 'r list \<Rightarrow> order_request list \<Rightarrow> 'r list \<times> api_call list" where
  "place_loop api trace orders [] = (orders, trace)"
| "place_loop api trace orders (req # reqs) =
     (case api trace (PlaceOrder req) of
        Inr order \<Rightarrow> place_loop api (trace @ [PlaceOrder req]) (orders @ [order]) reqs
      | Inl e \<Rightarrow> place_loop api (trace @ [PlaceOrder req]) orders reqs)"

definition entry_requests ::
  "string \<Rightarrow> string option \<Rightarrow> real list \<Rightarrow> real \<Rightarrow> settings \<Rightarrow> order_request list" where
  "entry_requests symbol position_type entry_zones total_size s =
     (let side = (if position_type = Some ''LONG'' then ''buy'' else ''sell'');
          distribution = get_or (entry_distribution s) [40, 35, 25];
          entry_steps = min (length entry_zones) (length distribution)
      in map (\<lambda>i. \<lparr> o_symbol = symbol, o_side = side, o_order_type = ''limit'',
                     o_size = total_size * (distribution ! i / 100),
                     o_price = entry_zones ! i, o_reduce_only = False \<rparr>)
             [0 ..< entry_steps])"

definition target_requests ::
  "string \<Rightarrow> string option \<Rightarrow> real list \<Rightarrow> real \<Rightarrow> settings \<Rightarrow> order_request list" where
  "target_requests symbol position_type targets total_size s =
     (let side = (if position_type = Some ''LONG'' then ''sell'' else ''buy'');
          distribution = get_or (target_distribution s) [50, 30, 20];
          target_steps = min (length targets) (length distribution)
      in map (\<lambda>i. \<lparr> o_symbol = symbol, o_side = side, o_order_type = ''limit'',
                     o_size = total_size * (distribution ! i / 100),
                     o_price = targets ! i, o_reduce_only = True \<rparr>)
             [0 ..< target_steps])"

definition stop_requests ::
  "string \<Rightarrow> string option \<Rightarrow> real option \<Rightarrow> real \<Rightarrow> order_request list" where
  "stop_requests symbol position_type stop_loss total_size =
     (if falsy stop_loss then []
      else [\<lparr> o_symbol = symbol,
              o_side = (if position_type = Some ''LONG'' then ''sell'' else ''buy''),
              o_order_type = ''stop_market'', o_size = total_size,
              o_price = the stop_loss, o_reduce_only = True \<rparr>])"

definition place_entry_orders ::
  "'r gateway \<Rightarrow> api_call list \<Rightarrow> string \<Rightarrow> string option \<Rightarrow> real list \<Rightarrow> real \<Rightarrow> settings
     \<Rightarrow> 'r list \<times> api_call list" where
  "place_entry_orders api trace symbol position_type entry_zones total_size s =
     (if entry_zones = [] then ([], trace)
      else place_loop api trace []
             (entry_requests symbol position_type entry_zones total_size s))"

definition place_target_orders ::
  "'r gateway \<Rightarrow> api_call list \<Rightarrow> string \<Rightarrow> string option \<Rightarrow> real list \<Rightarrow> real \<Rightarrow> settings
     \<Rightarrow> 'r list \<times> api_call list" where
  "place_target_orders api trace symbol position_type targets total_size s =
     (if targets = [] then ([], trace)
      else place_loop api trace []
             (target_requests symbol position_type targets total_size s))"

definition place_stop_loss_order ::
  "'r gateway \<Rightarrow> api_call list \<Rightarrow> string \<Rightarrow> string option \<Rightarrow> real option \<Rightarrow> real
     \<Rightarrow> 'r option \<times> api_call list" where
  "place_stop_loss_order api trace symbol position_type stop_loss total_size =
     (case stop_requests symbol position_type stop_loss total_size of
        [] \<Rightarrow> (None, trace)
      | req # reqs \<Rightarrow>
          (case api trace (PlaceOrder req) of
             Inr order \<Rightarrow> (Some order, trace @ [PlaceOrder req])
           | Inl e \<Rightarrow> (None, trace @ [PlaceOrder req])))"

text \<open>The result dictionary of \<open>execute_signal\<close>: the one of the normal return, or the one of the handler.\<close>

datatype 'r execution_result =
    Executed (x_symbol: string) (x_position_type: "string option") (x_position_size: real)
             (x_leverage: int) (x_entry_orders: "'r list") (x_target_orders: "'r list")
             (x_stop_order: "'r option")
  | ExecutionFailed string

definition success :: "'r execution_result \<Rightarrow> bool" where
  "success res = (case res of Executed a b c d e f g \<Rightarrow> True | ExecutionFailed e \<Rightarrow> False)"

definition signal_symbol :: "signal \<Rightarrow> string" where
  "signal_symbol sd = (case sig_coin sd of None \<Rightarrow> ''None'' | Some c \<Rightarrow> c) @ sig_pair sd"

definition margin_mode :: "signal \<Rightarrow> string" where
  "margin_mode sd = (if sig_cross_leverage sd then ''cross'' else ''isolated'')"

definition first_entry :: "real list \<Rightarrow> real option" where
  "first_entry entry_zones = (if entry_zones \<noteq> [] then Some (hd entry_zones) else Some 0)"

text \<open>
  \<open>execute_signal\<close> returns its dictionary; the trace of the calls it made is returned
  with it.  A dictionary of a failed parse has no coin, so the first lookup raises
  \<open>KeyError\<close>, which the handler reports like any failure of the top-level flow.
\<close>

definition execute_signal ::
  "'r gateway \<Rightarrow> parse_result \<Rightarrow> settings \<Rightarrow> 'r execution_result \<times> api_call list" where
  "execute_signal api signal_data s =
     (case signal_data of
        ParseFailed raw errs ok \<Rightarrow> (ExecutionFailed [CHR 0x27, CHR ''c'', CHR ''o'', CHR ''i'', CHR ''n'', CHR 0x27], [])
      | Parsed sd \<Rightarrow>
          let symbol = signal_symbol sd;
              position_type = sig_position_type sd;
              entry_zones = sig_entry_zones sd;
              targets = sig_targets sd;
              stop_loss = sig_stop_loss sd;
              leverage = sig_leverage sd;
              call = SetLeverage symbol leverage (margin_mode sd)
          in
          case api [] call of
            Inl e \<Rightarrow> (ExecutionFailed e, [call])
          | Inr r \<Rightarrow>
              let position_size =
                    trade_manager_calculate_position_size
                      (get_or (default_position_size s) 10)
                      (get_or (risk_percentage s) 2)
                      (first_entry entry_zones) stop_loss;
                  (entry_orders, trace) =
                    place_entry_orders api [call] symbol position_type entry_zones
                      position_size s;
                  (target_orders, trace) =
                    place_target_orders api trace symbol position_type targets
                      position_size s;
                  (stop_order, trace) =
                    place_stop_loss_order api trace symbol position_type stop_loss
                      position_size
              in (Executed symbol position_type position_size leverage
                    entry_orders target_orders stop_order, trace))"

text \<open>
  Sample data: a Long signal with two entries, one target and a stop; settings without
  any entry; an exchange that accepts the leverage call and rejects exactly the order
  placed when two calls have been made, that is the second entry order.
\<close>

definition sample_signal :: signal where
  "sample_signal =
     \<lparr> sig_raw_text = ''#BTC LONG'', sig_coin = Some ''BTC'', sig_pair = ''USDT'',
       sig_position_type = Some ''LONG'', sig_entry_zones = [100, 99],
       sig_leverage = 5, sig_cross_leverage = False, sig_targets = [110],
       sig_stop_loss = Some 95, sig_parse_errors = [], sig_parsed_successfully = True \<rparr>"

definition no_settings :: settings where
  "no_settings =
     \<lparr> default_position_size = None, risk_percentage = None, default_leverage = None,
       entry_distribution = None, target_distribution = None \<rparr>"

definition rejecting_exchange :: "nat gateway" where
  "rejecting_exchange trace call =
     (case call of
        SetLeverage symbol leverage mode \<Rightarrow> Inr 0
      | PlaceOrder req \<Rightarrow> if length trace = 2 then Inl ''rejected'' else Inr (length trace))"

section \<open>Properties of the sizing policies\<close>

lemma guard_iff:
  "(falsy s \<or> falsy e \<or> the s \<le> 0 \<or> the e \<le> 0) =
   (missing_or_nonpositive s \<or> missing_or_nonpositive e)"
  by (auto simp: falsy_def missing_or_nonpositive_def split: option.splits)

lemma risk_per_unit_pos:
  fixes e s :: real
  assumes "0 < e" "e \<noteq> s"
  shows "0 < \<bar>e - s\<bar> / e"
  using assms by simp

text \<open>
  C4, as stated: with both prices present and positive the backtest policy would return
  \<open>(balance * risk_pct / 100) / risk_per_unit\<close> capped at \<open>balance * 0.2\<close>.  With
  entry and stop both at 100 the risk per unit is zero and the stated formula has no
  value; at a balance of 1000, a default size of 10 and 2 percent risk the function
  returns 10, which is neither the cap 200 nor the stated term with the quotient by zero
  read as HOL reads it.
\<close>

theorem backtest_zero_risk_counterexample:
  "\<not> missing_or_nonpositive (Some (100::real))
   \<and> backtest_calculate_position_size 1000 10 2 (Some 100) (Some 100) = 10
   \<and> backtest_calculate_position_size 1000 10 2 (Some 100) (Some 100) \<noteq> 1000 * 0.2
   \<and> backtest_calculate_position_size 1000 10 2 (Some 100) (Some 100)
         \<noteq> min ((1000 * 2 / 100) / (\<bar>100 - 100\<bar> / 100)) (1000 * 0.2)"
  by (simp add: backtest_calculate_position_size_def falsy_def missing_or_nonpositive_def)

text \<open>
  C4, amended.  Balance-at-risk (backtest): when the stop or the entry price is missing
  or non-positive the size is \<open>min default_size (balance * 0.1)\<close>; otherwise, with the
  risk per unit \<open>|entry - stop| / entry\<close> and entry different from stop, the size is
  \<open>(balance * risk_pct / 100) / risk_per_unit\<close> capped at \<open>balance * 0.2\<close>; where
  entry equals stop the risk per unit is zero and the size is the value of the guard,
  \<open>min default_size (balance * 0.1)\<close>.
\<close>

theorem backtest_position_size_policy:
  "(missing_or_nonpositive stop \<or> missing_or_nonpositive entry \<longrightarrow>
      backtest_calculate_position_size balance default_size risk_pct entry stop
        = min default_size (balance * 0.1))
   \<and> (\<forall>e s. entry = Some e \<and> stop = Some s \<and> 0 < e \<and> 0 < s \<and> e \<noteq> s \<longrightarrow>
      backtest_calculate_position_size balance default_size risk_pct entry stop
        = min ((balance * risk_pct / 100) / (\<bar>e - s\<bar> / e)) (balance * 0.2))
   \<and> (\<forall>e. entry = Some e \<and> stop = Some e \<and> 0 < e \<longrightarrow>
      backtest_calculate_position_size balance default_size risk_pct entry stop
        = min default_size (balance * 0.1))"
proof (intro conjI impI allI)
  assume "missing_or_nonpositive stop \<or> missing_or_nonpositive entry"
  then show "backtest_calculate_position_size balance default_size risk_pct entry stop
        = min default_size (balance * 0.1)"
    unfolding backtest_calculate_position_size_def guard_iff by simp
next
  fix e s
  assume h: "entry = Some e \<and> stop = Some s \<and> 0 < e \<and> 0 < s \<and> e \<noteq> s"
  then have g: "\<not> (missing_or_nonpositive stop \<or> missing_or_nonpositive entry)"
    by (simp add: missing_or_nonpositive_def)
  from h have r: "0 < \<bar>e - s\<bar> / e" by (simp add: risk_per_unit_pos)
  from h g r show "backtest_calculate_position_size balance default_size risk_pct entry stop
        = min ((balance * risk_pct / 100) / (\<bar>e - s\<bar> / e)) (balance * 0.2)"
    unfolding backtest_calculate_position_size_def guard_iff by (simp add: Let_def)
next
  fix e
  assume h: "entry = Some e \<and> stop = Some e \<and> 0 < e"
  then have g: "\<not> (missing_or_nonpositive stop \<or> missing_or_nonpositive entry)"
    by (simp add: missing_or_nonpositive_def)
  from h g show "backtest_calculate_position_size balance default_size risk_pct entry stop
        = min default_size (balance * 0.1)"
    unfolding backtest_calculate_position_size_def guard_iff by (simp add: Let_def)
qed

text \<open>
  The policy at a balance of 1000, a default size of 10 and 2 percent risk: without a
  stop the size is 10; with entry 100 and stop 95 the uncapped size is 400 and the cap
  200 applies; with entry 100 and stop 50 the size is 40; with entry equal to stop it is
  10 again.
\<close>

theorem backtest_position_size_policy_witness:
  "backtest_calculate_position_size 1000 10 2 (Some 100) None = 10
   \<and> backtest_calculate_position_size 1000 10 2 (Some 100) (Some 95) = 200
   \<and> backtest_calculate_position_size 1000 10 2 (Some 100) (Some 50) = 40
   \<and> backtest_calculate_position_size 1000 10 2 (Some 100) (Some 100) = 10"
  using backtest_position_size_policy
          [where stop = None and entry = "Some 100" and balance = 1000
             and default_size = 10 and risk_pct = 2]
        backtest_position_size_policy
          [where stop = "Some 95" and entry = "Some 100" and balance = 1000
             and default_size = 10 and risk_pct = 2]
        backtest_position_size_policy
          [where stop = "Some 50" and entry = "Some 100" and balance = 1000
             and default_size = 10 and risk_pct = 2]
        backtest_position_size_policy
          [where stop = "Some 100" and entry = "Some 100" and balance = 1000
             and default_size = 10 and risk_pct = 2]
  by (simp add: missing_or_nonpositive_def)

text \<open>
  C2, as stated: the base-multiplier policy would return
  \<open>min default_size (balance * 0.1)\<close> under the guard.  The function has no balance;
  with a base size of 10 and no stop it returns 10, while at a balance of 50 the stated
  value is 5.
\<close>

theorem trade_manager_guard_counterexample:
  "trade_manager_calculate_position_size 10 2 (Some 100) None \<noteq> min 10 (50 * 0.1)"
  by (simp add: trade_manager_calculate_position_size_def falsy_def)

text \<open>
  C2, amended.  Base-multiplier (live execution): when the stop or the entry price is
  missing or non-positive the size is the base size itself; otherwise, with the risk per
  unit \<open>|entry - stop| / entry\<close>, the size is \<open>(risk_pct / 100) / risk_per_unit * base_size\<close>
  capped at \<open>base_size * 5\<close>; where the risk per unit is zero the size is the base size.
\<close>

theorem trade_manager_position_size_policy:
  "(missing_or_nonpositive stop \<or> missing_or_nonpositive entry \<longrightarrow>
      trade_manager_calculate_position_size base_size risk_pct entry stop = base_size)
   \<and> (\<forall>e s. entry = Some e \<and> stop = Some s \<and> 0 < e \<and> 0 < s \<and> e \<noteq> s \<longrightarrow>
      trade_manager_calculate_position_size base_size risk_pct entry stop
        = min ((risk_pct / 100) / (\<bar>e - s\<bar> / e) * base_size) (base_size * 5))
   \<and> (\<forall>e. entry = Some e \<and> stop = Some e \<and> 0 < e \<longrightarrow>
      trade_manager_calculate_position_size base_size risk_pct entry stop = base_size)"
proof (intro conjI impI allI)
  assume "missing_or_nonpositive stop \<or> missing_or_nonpositive entry"
  then show "trade_manager_calculate_position_size base_size risk_pct entry stop = base_size"
    unfolding trade_manager_calculate_position_size_def guard_iff by simp
next
  fix e s
  assume h: "entry = Some e \<and> stop = Some s \<and> 0 < e \<and> 0 < s \<and> e \<noteq> s"
  then have g: "\<not> (missing_or_nonpositive stop \<or> missing_or_nonpositive entry)"
    by (simp add: missing_or_nonpositive_def)
  from h have r: "0 < \<bar>e - s\<bar> / e" by (simp add: risk_per_unit_pos)
  from h g r show "trade_manager_calculate_position_size base_size risk_pct entry stop
        = min ((risk_pct / 100) / (\<bar>e - s\<bar> / e) * base_size) (base_size * 5)"
    unfolding trade_manager_calculate_position_size_def guard_iff by (simp add: Let_def)
next
  fix e
  assume h: "entry = Some e \<and> stop = Some e \<and> 0 < e"
  then have g: "\<not> (missing_or_nonpositive stop \<or> missing_or_nonpositive entry)"
    by (simp add: missing_or_nonpositive_def)
  from h g show "trade_manager_calculate_position_size base_size risk_pct entry stop = base_size"
    unfolding trade_manager_calculate_position_size_def guard_iff by (simp add: Let_def)
qed

text \<open>
  The policy at a base size of 10 and 2 percent risk: without a stop, and with a zero
  entry price, the size is 10; with entry 1000 and stop 999 the uncapped size is 200 and
  the cap 50 applies; with entry 100 and stop 95 the size is 4; with entry equal to stop
  it is 10.
\<close>

theorem trade_manager_position_size_policy_witness:
  "trade_manager_calculate_position_size 10 2 (Some 100) None = 10
   \<and> trade_manager_calculate_position_size 10 2 (Some 0) (Some 95) = 10
   \<and> trade_manager_calculate_position_size 10 2 (Some 1000) (Some 999) = 50
   \<and> trade_manager_calculate_position_size 10 2 (Some 100) (Some 95) = 4
   \<and> trade_manager_calculate_position_size 10 2 (Some 100) (Some 100) = 10"
  using trade_manager_position_size_policy
          [where stop = None and entry = "Some 100" and base_size = 10 and risk_pct = 2]
        trade_manager_position_size_policy
          [where stop = "Some 100" and entry = "Some 100" and base_size = 10 and risk_pct = 2]
        trade_manager_position_size_policy
          [where stop = "Some 95" and entry = "Some 0" and base_size = 10 and risk_pct = 2]
        trade_manager_position_size_policy
          [where stop = "Some 999" and entry = "Some 1000" and base_size = 10 and risk_pct = 2]
        trade_manager_position_size_policy
          [where stop = "Some 95" and entry = "Some 100" and base_size = 10 and risk_pct = 2]
  by (simp add: missing_or_nonpositive_def)

section \<open>Properties of the signal parser\<close>

subsection \<open>Evaluation\<close>

lemmas number_eval =
  py_float_def is_digit_def digit_chars_def nat_of_digits_def digit_val_def
  remove_commas_def strip_def is_space_def space_chars_def

lemma concat_map_concat:
  "concat (map (\<lambda>p. concat (map f (g p))) ps) = concat (map f (concat (map g ps)))"
  by (induction ps) simp_all

lemma entry_pool_of_matches:
  "entry_pool text =
     concat (map entry_points (concat (map (\<lambda>p. re_findall True p text) entry_patterns)))"
  unfolding entry_pool_def by (rule concat_map_concat)

lemma target_pool_of_matches:
  "target_pool text =
     concat (map (\<lambda>m. case m of None \<Rightarrow> [] | Some target_text \<Rightarrow> target_numbers target_text)
                 (map (\<lambda>p. re_search True p text) target_patterns))"
  unfolding target_pool_def by (simp add: comp_def)

subsection \<open>Leverage\<close>







text \<open>Leverage values at and beyond the bounds: 250 becomes 100, 0 becomes 1, 5 stays.\<close>

lemma extract_leverage_examples:
  "extract_leverage (clean_text ''Leverage: 250x'') = 100"
  "extract_leverage (clean_text ''lev 0'') = 1"
  "extract_leverage (clean_text ''5x cross'') = 5"
  by code_simp+

subsection \<open>Batches\<close>

lemma batch_loop_map: "batch_loop results signals = results @ map parse_signal signals"
  by (induction signals arbitrary: results) simp_all

text \<open>
  C6. A batch has one result per input, in the order of the inputs; an input on which
  parsing raises yields its own result, with the error
  \<open>Parsing failed: ...\<close> and the success flag false, and the results of the other inputs
  are those of parsing them alone.
\<close>

theorem batch_parse_preserves_order:
  "length (batch_parse_signals signals) = length signals
   \<and> (\<forall>i < length signals. batch_parse_signals signals ! i = parse_signal (signals ! i))
   \<and> (\<forall>i < length signals. \<forall>msg. signals ! i = NonText msg \<longrightarrow>
         parse_errors (batch_parse_signals signals ! i) = [''Parsing failed: '' @ msg]
         \<and> \<not> parsed_successfully (batch_parse_signals signals ! i))"
proof -
  have m: "batch_parse_signals signals = map parse_signal signals"
    by (simp add: batch_parse_signals_def batch_loop_map)
  have f: "parse_errors (parse_signal (NonText msg)) = [''Parsing failed: '' @ msg]
           \<and> \<not> parsed_successfully (parse_signal (NonText msg))" for msg
    by (simp add: parse_signal_def parse_errors_def parsed_successfully_def)
  show ?thesis unfolding m using f by simp
qed

text \<open>A batch of three inputs whose second is not a string.\<close>

theorem batch_parse_preserves_order_witness:
  "length (batch_parse_signals [Text ''btc'', NonText ''expected string'', Text ''eth'']) = 3
   \<and> batch_parse_signals [Text ''btc'', NonText ''expected string'', Text ''eth''] ! 2
       = parse_signal (Text ''eth'')
   \<and> parse_errors (batch_parse_signals [Text ''btc'', NonText ''expected string'', Text ''eth''] ! 1)
       = [''Parsing failed: expected string'']
   \<and> \<not> parsed_successfully
         (batch_parse_signals [Text ''btc'', NonText ''expected string'', Text ''eth''] ! 1)"
proof -
  let ?xs = "[Text ''btc'', NonText ''expected string'', Text ''eth'']"
  note t = batch_parse_preserves_order [of ?xs]
  from t have l: "length (batch_parse_signals ?xs) = 3" by simp
  from t have a: "\<forall>i < length ?xs. batch_parse_signals ?xs ! i = parse_signal (?xs ! i)"
    by blast
  from t have b: "\<forall>i < length ?xs. \<forall>msg. ?xs ! i = NonText msg \<longrightarrow>
         parse_errors (batch_parse_signals ?xs ! i) = [''Parsing failed: '' @ msg]
         \<and> \<not> parsed_successfully (batch_parse_signals ?xs ! i)"
    by blast
  have n2: "batch_parse_signals ?xs ! 2 = parse_signal (?xs ! 2)"
    using a by (rule allE [where x = 2]) simp
  have "?xs ! 1 = NonText ''expected string''" by simp
  with b have n1: "parse_errors (batch_parse_signals ?xs ! 1)
                     = [''Parsing failed: '' @ ''expected string'']
                   \<and> \<not> parsed_successfully (batch_parse_signals ?xs ! 1)"
    by (metis One_nat_def length_Cons lessI less_Suc_eq list.size(3))
  from l n2 n1 show ?thesis by simp
qed

subsection \<open>Entry ranges\<close>










text \<open>The range of Scenario A, and a range written with spaces and commas.\<close>

lemma entry_points_examples:
  "entry_points ''45000-46000'' = [45000, 45500, 46000]"
  "entry_points ''1,000 - 2,000.5'' = [1000, 1500.25, 2000.5]"
  by (simp_all add: entry_points_def number_eval)

subsection \<open>What the entry patterns capture\<close>























text \<open>The same range through the patterns: the pool of the text of Scenario A.\<close>

lemma entry_pool_scenario:
  "entry_pool (clean_text ''Entry: 45000-46000'') = [45000, 45500, 46000]"
proof -
  have "concat (map (\<lambda>p. re_findall True p (clean_text ''Entry: 45000-46000'')) entry_patterns)
          = [''45000-46000'']"
    by code_simp
  then show ?thesis
    by (simp add: entry_pool_of_matches entry_points_def number_eval)
qed

subsection \<open>Order, duplicates and length of the extracted lists\<close>

lemma extract_targets_sorted_distinct_capped:
  "sorted (extract_targets text) \<and> distinct (extract_targets text)
   \<and> length (extract_targets text) \<le> 5"
  by (simp add: extract_targets_def sorted_wrt_take)

lemma extract_entry_zones_capped: "length (extract_entry_zones text) \<le> 5"
  by (simp add: extract_entry_zones_def Let_def)

lemma extract_entry_zones_rule_path:
  assumes "entry_pool text \<noteq> []"
  shows "sorted (extract_entry_zones text) \<and> distinct (extract_entry_zones text)"
proof -
  from assms have "sorted_list_of_set (set (entry_pool text)) \<noteq> []"
    by (simp add: sorted_list_of_set_eq_Nil_iff)
  then show ?thesis
    by (simp add: extract_entry_zones_def Let_def sorted_wrt_take)
qed

text \<open>
  C1 at the text \<open>#SOL SHORT 9 9 3\<close>: no entry pattern matches, the fallback supplies
  the number tokens in text order, and the signal, reported as parsed successfully, has
  the entry zones 9, 9, 3: not ascending and with a duplicate.
\<close>

theorem fallback_entry_zones_unsorted:
  "parse_signal (Text ''#SOL SHORT 9 9 3'') =
     Parsed \<lparr> sig_raw_text = ''#SOL SHORT 9 9 3'', sig_coin = Some ''SOL'', sig_pair = ''USDT'',
              sig_position_type = Some ''SHORT'', sig_entry_zones = [9, 9, 3],
              sig_leverage = 1, sig_cross_leverage = False, sig_targets = [],
              sig_stop_loss = None, sig_parse_errors = [],
              sig_parsed_successfully = True \<rparr>
   \<and> \<not> sorted [9, 9, 3 :: real] \<and> \<not> distinct [9, 9, 3 :: real]"
proof -
  have c: "clean_text ''#SOL SHORT 9 9 3'' = ''#SOL SHORT 9 9 3''"
    by code_simp
  have coin: "extract_coin ''#SOL SHORT 9 9 3'' = Some ''SOL''"
    by code_simp
  have pos: "extract_position_type ''#SOL SHORT 9 9 3'' = Some ''SHORT''"
    by code_simp
  have lev: "extract_leverage ''#SOL SHORT 9 9 3'' = 1"
    by code_simp
  have cross: "detect_cross_leverage ''#SOL SHORT 9 9 3'' = False"
    by code_simp
  have em: "concat (map (\<lambda>p. re_findall True p ''#SOL SHORT 9 9 3'') entry_patterns) = []"
    by code_simp
  have fb: "re_findall False bounded_number_token ''#SOL SHORT 9 9 3'' = [''9'', ''9'', ''3'']"
    by code_simp
  have tm: "map (\<lambda>p. re_search True p ''#SOL SHORT 9 9 3'') target_patterns
              = [None, None, None, None]"
    by code_simp
  have sm: "map (\<lambda>p. re_search True p ''#SOL SHORT 9 9 3'') stoploss_patterns
              = [None, None, None, None]"
    by code_simp
  have pool: "entry_pool ''#SOL SHORT 9 9 3'' = []"
    by (simp add: entry_pool_of_matches em)
  have fall: "fallback_entries ''#SOL SHORT 9 9 3'' = [9, 9, 3]"
    by (simp add: fallback_entries_def fb plausible_price_def number_eval)
  have entries: "extract_entry_zones ''#SOL SHORT 9 9 3'' = [9, 9, 3]"
    by (simp add: extract_entry_zones_def pool fall)
  have targets: "extract_targets ''#SOL SHORT 9 9 3'' = []"
    by (simp add: extract_targets_def target_pool_of_matches tm)
  have stop: "extract_stop_loss ''#SOL SHORT 9 9 3'' = None"
    using sm by (simp add: extract_stop_loss_def stoploss_patterns_def)
  show ?thesis
    by (simp add: parse_signal_def c coin pos lev cross entries targets stop
                  validate_signal_def)
qed

section \<open>Properties of the exit search\<close>

lemma stop_hit_iff:
  "stop_hit position_type stop_loss row =
     (\<not> falsy stop_loss \<and>
      ((position_type = Some ''LONG'' \<and> c_low row \<le> the stop_loss)
       \<or> (position_type = Some ''SHORT'' \<and> c_high row \<ge> the stop_loss)))"
  by (auto simp: stop_hit_def falsy_def split: option.splits)

lemma first_target_hit_none:
  "(first_target_hit position_type row targets = None)
     = (\<not> list_ex (target_hit position_type row) targets)"
  by (induction targets) (auto simp: target_hit_def)

lemma first_target_hit_first:
  assumes "\<forall>u \<in> set before. \<not> target_hit position_type row u"
    and "target_hit position_type row t"
  shows "first_target_hit position_type row (before @ t # rest) = Some t"
  using assms by (induction before) (auto simp: target_hit_def)

lemma exit_scan_stop:
  assumes "stop_hit position_type stop_loss row"
  shows "exit_scan (row # rows) targets stop_loss position_type
           = Some (the stop_loss, c_timestamp row, ''stop_loss'')"
  using assms by (auto simp: stop_hit_iff)

lemma exit_scan_target:
  assumes "\<not> stop_hit position_type stop_loss row"
    and "first_target_hit position_type row targets = Some t"
  shows "exit_scan (row # rows) targets stop_loss position_type
           = Some (t, c_timestamp row, ''target'')"
  using assms by (auto simp: stop_hit_iff)

lemma exit_scan_miss:
  assumes "\<not> row_hit position_type stop_loss targets row"
  shows "exit_scan (row # rows) targets stop_loss position_type
           = exit_scan rows targets stop_loss position_type"
proof -
  from assms have s: "\<not> stop_hit position_type stop_loss row"
    and t: "first_target_hit position_type row targets = None"
    by (simp_all add: row_hit_def first_target_hit_none)
  from s t show ?thesis by (auto simp: stop_hit_iff)
qed

lemma exit_scan_skip:
  assumes "\<forall>r \<in> set before. \<not> row_hit position_type stop_loss targets r"
  shows "exit_scan (before @ rows) targets stop_loss position_type
           = exit_scan rows targets stop_loss position_type"
  using assms
proof (induction before)
  case Nil
  show ?case by simp
next
  case (Cons r before)
  then show ?case using exit_scan_miss [of position_type stop_loss targets r] by simp
qed

lemma exit_scan_none:
  assumes "\<forall>r \<in> set rows. \<not> row_hit position_type stop_loss targets r"
  shows "exit_scan rows targets stop_loss position_type = None"
  using exit_scan_skip [OF assms, of "[]"] by simp

text \<open>
  C3, as stated.  With one candle at the entry time nothing lies after the entry, no
  candle satisfies a condition, and the search returns no exit instead of a timeout exit
  at the last close.  With a Short position and a stop price of zero the candle after the
  entry has its high above the stop, and the search does not exit at the stop: it runs
  into the timeout.
\<close>

theorem find_exit_point_counterexample:
  "find_exit_point
     [\<lparr> c_timestamp = 1, c_open = 100, c_high = 100, c_low = 100, c_close = 100 \<rparr>]
     1 [110] (Some 90) (Some ''LONG'') = None
   \<and> find_exit_point
     [\<lparr> c_timestamp = 2, c_open = 100, c_high = 100, c_low = 100, c_close = 100 \<rparr>]
     1 [90] (Some 0) (Some ''SHORT'') = Some (100, 2, ''timeout'')"
  by (simp add: find_exit_point_def rows_after_def falsy_def)

text \<open>
  C3, amended.  Only the candles strictly after the entry time are considered, in the
  order of the price series.  If there is none, no exit is found.  Otherwise, at the
  first of them that satisfies a condition,
  the stop is checked first, provided a stop is set and is not zero (Long: low at or
  below the stop; Short: high at or above the stop), and then the targets in list order
  (Long: high at or above the target; Short: low at or below the target); the first
  satisfied condition fixes price, time and reason.  If none of them satisfies a
  condition, the exit is the close of the last of them, with reason timeout.
\<close>

theorem find_exit_point_first_hit:
  "(rows_after entry_time data = [] \<longrightarrow>
      find_exit_point data entry_time targets stop_loss position_type = None)
   \<and> (\<forall>before row rest.
        rows_after entry_time data = before @ row # rest
        \<and> (\<forall>r \<in> set before. \<not> row_hit position_type stop_loss targets r)
        \<and> stop_hit position_type stop_loss row \<longrightarrow>
        find_exit_point data entry_time targets stop_loss position_type
          = Some (the stop_loss, c_timestamp row, ''stop_loss''))
   \<and> (\<forall>before row rest earlier t later.
        rows_after entry_time data = before @ row # rest
        \<and> (\<forall>r \<in> set before. \<not> row_hit position_type stop_loss targets r)
        \<and> \<not> stop_hit position_type stop_loss row
        \<and> targets = earlier @ t # later
        \<and> (\<forall>u \<in> set earlier. \<not> target_hit position_type row u)
        \<and> target_hit position_type row t \<longrightarrow>
        find_exit_point data entry_time targets stop_loss position_type
          = Some (t, c_timestamp row, ''target''))
   \<and> (rows_after entry_time data \<noteq> []
        \<and> (\<forall>r \<in> set (rows_after entry_time data).
              \<not> row_hit position_type stop_loss targets r) \<longrightarrow>
        find_exit_point data entry_time targets stop_loss position_type
          = Some (c_close (last (rows_after entry_time data)),
                  c_timestamp (last (rows_after entry_time data)), ''timeout''))"
proof (intro conjI allI impI)
  assume "rows_after entry_time data = []"
  then show "find_exit_point data entry_time targets stop_loss position_type = None"
    by (simp add: find_exit_point_def)
next
  fix before row rest
  assume h: "rows_after entry_time data = before @ row # rest
        \<and> (\<forall>r \<in> set before. \<not> row_hit position_type stop_loss targets r)
        \<and> stop_hit position_type stop_loss row"
  then have eq: "rows_after entry_time data = before @ row # rest"
    and b: "\<forall>r \<in> set before. \<not> row_hit position_type stop_loss targets r"
    and sh: "stop_hit position_type stop_loss row"
    by blast+
  have "exit_scan (before @ row # rest) targets stop_loss position_type
          = exit_scan (row # rest) targets stop_loss position_type"
    by (rule exit_scan_skip [OF b])
  also have "\<dots> = Some (the stop_loss, c_timestamp row, ''stop_loss'')"
    by (rule exit_scan_stop [OF sh])
  finally have "exit_scan (rows_after entry_time data) targets stop_loss position_type
               = Some (the stop_loss, c_timestamp row, ''stop_loss'')"
    by (simp only: eq)
  with h show "find_exit_point data entry_time targets stop_loss position_type
          = Some (the stop_loss, c_timestamp row, ''stop_loss'')"
    by (simp add: find_exit_point_def)
next
  fix before row rest earlier t later
  assume h: "rows_after entry_time data = before @ row # rest
        \<and> (\<forall>r \<in> set before. \<not> row_hit position_type stop_loss targets r)
        \<and> \<not> stop_hit position_type stop_loss row
        \<and> targets = earlier @ t # later
        \<and> (\<forall>u \<in> set earlier. \<not> target_hit position_type row u)
        \<and> target_hit position_type row t"
  then have eq: "rows_after entry_time data = before @ row # rest"
    and b: "\<forall>r \<in> set before. \<not> row_hit position_type stop_loss targets r"
    and ns: "\<not> stop_hit position_type stop_loss row"
    and tg: "targets = earlier @ t # later"
    and e: "\<forall>u \<in> set earlier. \<not> target_hit position_type row u"
    and th: "target_hit position_type row t"
    by blast+
  have f: "first_target_hit position_type row targets = Some t"
    unfolding tg by (rule first_target_hit_first [OF e th])
  have "exit_scan (before @ row # rest) targets stop_loss position_type
          = exit_scan (row # rest) targets stop_loss position_type"
    by (rule exit_scan_skip [OF b])
  also have "\<dots> = Some (t, c_timestamp row, ''target'')"
    by (rule exit_scan_target [OF ns f])
  finally have "exit_scan (rows_after entry_time data) targets stop_loss position_type
               = Some (t, c_timestamp row, ''target'')"
    by (simp only: eq)
  with h show "find_exit_point data entry_time targets stop_loss position_type
          = Some (t, c_timestamp row, ''target'')"
    by (simp add: find_exit_point_def)
next
  assume h: "rows_after entry_time data \<noteq> []
        \<and> (\<forall>r \<in> set (rows_after entry_time data).
              \<not> row_hit position_type stop_loss targets r)"
  then have "exit_scan (rows_after entry_time data) targets stop_loss position_type = None"
    using exit_scan_none by blast
  with h show "find_exit_point data entry_time targets stop_loss position_type
          = Some (c_close (last (rows_after entry_time data)),
                  c_timestamp (last (rows_after entry_time data)), ''timeout'')"
    by (simp add: find_exit_point_def Let_def)
qed

text \<open>
  Four candles and an entry at time 1, Long.  With stop 96 the candle at time 2 hits the
  stop; with stop 90 and targets 110, 120 the candle at time 3 hits the first target;
  with stop 50 and target 200 nothing is hit and the exit is the last close; with an
  entry at time 4 there is no exit.
\<close>

theorem find_exit_point_first_hit_witness:
  "find_exit_point
     [\<lparr> c_timestamp = 1, c_open = 100, c_high = 101, c_low = 99, c_close = 100 \<rparr>,
      \<lparr> c_timestamp = 2, c_open = 100, c_high = 105, c_low = 95, c_close = 100 \<rparr>,
      \<lparr> c_timestamp = 3, c_open = 100, c_high = 115, c_low = 100, c_close = 112 \<rparr>,
      \<lparr> c_timestamp = 4, c_open = 112, c_high = 113, c_low = 111, c_close = 111 \<rparr>]
     1 [110, 120] (Some 96) (Some ''LONG'') = Some (96, 2, ''stop_loss'')
   \<and> find_exit_point
     [\<lparr> c_timestamp = 1, c_open = 100, c_high = 101, c_low = 99, c_close = 100 \<rparr>,
      \<lparr> c_timestamp = 2, c_open = 100, c_high = 105, c_low = 95, c_close = 100 \<rparr>,
      \<lparr> c_timestamp = 3, c_open = 100, c_high = 115, c_low = 100, c_close = 112 \<rparr>,
      \<lparr> c_timestamp = 4, c_open = 112, c_high = 113, c_low = 111, c_close = 111 \<rparr>]
     1 [110, 120] (Some 90) (Some ''LONG'') = Some (110, 3, ''target'')
   \<and> find_exit_point
     [\<lparr> c_timestamp = 1, c_open = 100, c_high = 101, c_low = 99, c_close = 100 \<rparr>,
      \<lparr> c_timestamp = 2, c_open = 100, c_high = 105, c_low = 95, c_close = 100 \<rparr>,
      \<lparr> c_timestamp = 3, c_open = 100, c_high = 115, c_low = 100, c_close = 112 \<rparr>,
      \<lparr> c_timestamp = 4, c_open = 112, c_high = 113, c_low = 111, c_close = 111 \<rparr>]
     1 [200] (Some 50) (Some ''LONG'') = Some (111, 4, ''timeout'')
   \<and> find_exit_point
     [\<lparr> c_timestamp = 1, c_open = 100, c_high = 101, c_low = 99, c_close = 100 \<rparr>,
      \<lparr> c_timestamp = 2, c_open = 100, c_high = 105, c_low = 95, c_close = 100 \<rparr>,
      \<lparr> c_timestamp = 3, c_open = 100, c_high = 115, c_low = 100, c_close = 112 \<rparr>,
      \<lparr> c_timestamp = 4, c_open = 112, c_high = 113, c_low = 111, c_close = 111 \<rparr>]
     4 [110, 120] (Some 90) (Some ''LONG'') = None"
proof -
  let ?c1 = "\<lparr> c_timestamp = 1, c_open = 100, c_high = 101, c_low = 99, c_close = 100 \<rparr>"
  let ?c2 = "\<lparr> c_timestamp = 2, c_open = 100, c_high = 105, c_low = 95, c_close = 100 \<rparr>"
  let ?c3 = "\<lparr> c_timestamp = 3, c_open = 100, c_high = 115, c_low = 100, c_close = 112 \<rparr>"
  let ?c4 = "\<lparr> c_timestamp = 4, c_open = 112, c_high = 113, c_low = 111, c_close = 111 \<rparr>"
  let ?D = "[?c1, ?c2, ?c3, ?c4]"
  have r1: "rows_after 1 ?D = [?c2, ?c3, ?c4]" and r4: "rows_after 4 ?D = []"
    by (simp_all add: rows_after_def)
  have a: "rows_after 1 ?D = [] @ ?c2 # [?c3, ?c4]
           \<and> (\<forall>r \<in> set []. \<not> row_hit (Some ''LONG'') (Some 96) [110, 120] r)
           \<and> stop_hit (Some ''LONG'') (Some 96) ?c2"
    by (simp add: r1 stop_hit_def)
  have b: "rows_after 1 ?D = [?c2] @ ?c3 # [?c4]
           \<and> (\<forall>r \<in> set [?c2]. \<not> row_hit (Some ''LONG'') (Some 90) [110, 120] r)
           \<and> \<not> stop_hit (Some ''LONG'') (Some 90) ?c3
           \<and> [110, 120] = [] @ 110 # [120]
           \<and> (\<forall>u \<in> set []. \<not> target_hit (Some ''LONG'') ?c3 u)
           \<and> target_hit (Some ''LONG'') ?c3 110"
    by (simp add: r1 row_hit_def stop_hit_def target_hit_def)
  have c: "rows_after 1 ?D \<noteq> []
           \<and> (\<forall>r \<in> set (rows_after 1 ?D). \<not> row_hit (Some ''LONG'') (Some 50) [200] r)"
    by (simp add: r1 row_hit_def stop_hit_def target_hit_def)
  have 1: "find_exit_point ?D 1 [110, 120] (Some 96) (Some ''LONG'')
             = Some (the (Some 96), c_timestamp ?c2, ''stop_loss'')"
    using find_exit_point_first_hit [of 1 ?D "[110, 120]" "Some 96" "Some ''LONG''"] a
    by blast
  have 2: "find_exit_point ?D 1 [110, 120] (Some 90) (Some ''LONG'')
             = Some (110, c_timestamp ?c3, ''target'')"
    using find_exit_point_first_hit [of 1 ?D "[110, 120]" "Some 90" "Some ''LONG''"] b
    by blast
  have 3: "find_exit_point ?D 1 [200] (Some 50) (Some ''LONG'')
             = Some (c_close (last (rows_after 1 ?D)), c_timestamp (last (rows_after 1 ?D)),
                     ''timeout'')"
    using find_exit_point_first_hit [of 1 ?D "[200]" "Some 50" "Some ''LONG''"] c
    by blast
  have 4: "find_exit_point ?D 4 [110, 120] (Some 90) (Some ''LONG'') = None"
    using find_exit_point_first_hit [of 4 ?D "[110, 120]" "Some 90" "Some ''LONG''"] r4
    by blast
  from 1 2 3 4 show ?thesis by (simp add: r1)
qed

section \<open>Properties of the metrics and the report\<close>

subsection \<open>Double precision\<close>

lemma binade_le:
  assumes "0 < x"
  shows "2 powi (binade x) \<le> x"
proof (cases "1 \<le> x")
  case True
  then have n: "0 < \<lfloor>x\<rfloor>" by simp
  from bitlen_bounds [OF n] have "2 ^ nat (bitlen \<lfloor>x\<rfloor> - 1) \<le> \<lfloor>x\<rfloor>" by blast
  then have "(2::real) ^ nat (bitlen \<lfloor>x\<rfloor> - 1) \<le> of_int \<lfloor>x\<rfloor>"
    by (metis of_int_le_iff of_int_numeral of_int_power)
  also have "\<dots> \<le> x" by simp
  finally have "(2::real) ^ nat (bitlen \<lfloor>x\<rfloor> - 1) \<le> x" .
  moreover from n have "0 \<le> bitlen \<lfloor>x\<rfloor> - 1"
    using bitlen_eq_zero_iff [of "\<lfloor>x\<rfloor>"] bitlen_nonneg [of "\<lfloor>x\<rfloor>"] by linarith
  ultimately show ?thesis using True by (simp add: binade_def power_int_def)
next
  case False
  with assms have x: "0 < x" "x < 1" by simp_all
  let ?c = "\<lceil>1 / x\<rceil>"
  from x have "1 < 1 / x" by simp
  then have c: "2 \<le> ?c" by linarith
  then have m: "0 < ?c - 1" by simp
  let ?k = "bitlen (?c - 1)"
  from bitlen_bounds [OF m] have "?c - 1 < 2 ^ nat ?k" by blast
  then have "?c \<le> 2 ^ nat ?k" by simp
  then have "of_int ?c \<le> (2::real) ^ nat ?k"
    by (metis of_int_le_iff of_int_numeral of_int_power)
  moreover have "1 / x \<le> of_int ?c" by simp
  ultimately have "1 / x \<le> 2 ^ nat ?k" by linarith
  with x have "1 / 2 ^ nat ?k \<le> x"
    by (simp add: field_simps)
  moreover from m have "0 < ?k"
    using bitlen_eq_zero_iff [of "?c - 1"] bitlen_nonneg [of "?c - 1"] by linarith
  ultimately show ?thesis using False
    by (simp add: binade_def power_int_def field_simps)
qed

lemma round_half_even_ge: "1 \<le> y \<Longrightarrow> 1 \<le> round_half_even y"
proof -
  assume "1 \<le> y"
  then have "1 \<le> \<lfloor>y\<rfloor>" by simp
  then show ?thesis by (simp add: round_half_even_def Let_def)
qed

text \<open>Rounding keeps the sign: without underflow a positive number stays positive.\<close>

lemma fl_pos:
  assumes "0 < x"
  shows "0 < fl x"
proof -
  let ?e = "binade \<bar>x\<bar> - 52"
  have "(2::real) powi ?e \<le> 2 powi (binade \<bar>x\<bar>)"
    by (rule power_int_increasing) simp_all
  also have "\<dots> \<le> \<bar>x\<bar>" using assms by (intro binade_le) simp
  finally have "2 powi ?e \<le> \<bar>x\<bar>" .
  moreover have p: "(0::real) < 2 powi ?e" by simp
  ultimately have "1 \<le> \<bar>x\<bar> / 2 powi ?e" by (simp add: field_simps)
  then have "1 \<le> round_half_even (\<bar>x\<bar> / 2 powi ?e)" by (rule round_half_even_ge)
  then have "0 < real_of_int (round_half_even (\<bar>x\<bar> / 2 powi ?e)) * 2 powi ?e"
    using p by simp
  with assms show ?thesis by (simp add: fl_def Let_def)
qed

lemmas fl_eval = fl_def binade_def round_half_even_def compute_bitlen

text \<open>The double of one tenth, and the doubles met when three of them are averaged.\<close>

lemma fl_tenth: "fl (1 / 10) = 3602879701896397 / 2 ^ 55"
  by (simp add: fl_eval)

lemma sum_three_tenths:
  "pairwise_sum [3602879701896397 / 2 ^ 55, 3602879701896397 / 2 ^ 55, 3602879701896397 / 2 ^ 55]
     = 1351079888211149 / 2 ^ 52"
proof -
  have 1: "fl (0 + 3602879701896397 / 2 ^ 55) = 3602879701896397 / 2 ^ 55"
    by (simp add: fl_eval)
  have 2: "fl (3602879701896397 / 2 ^ 55 + 3602879701896397 / 2 ^ 55) = 3602879701896397 / 2 ^ 54"
    by (simp add: fl_eval)
  have 3: "fl (3602879701896397 / 2 ^ 54 + 3602879701896397 / 2 ^ 55) = 1351079888211149 / 2 ^ 52"
    by (simp add: fl_eval)
  show ?thesis
    by (simp only: pairwise_sum.simps [of "[_, _, _]"] fadd_def foldl.simps 1 2 3) simp
qed

lemma np_mean_three_tenths: "np_mean [1 / 10, 1 / 10, 1 / 10] = 7205759403792795 / 2 ^ 56"
proof -
  have d: "fl (1351079888211149 / 2 ^ 52 / 3) = 7205759403792795 / 2 ^ 56"
    by (simp add: fl_eval)
  have l: "real (length [1 / 10, 1 / 10, 1 / 10 :: real]) = 3" by simp
  show ?thesis
    unfolding np_mean_def np_array_def fdiv_def list.map fl_tenth sum_three_tenths l d
    by (rule refl)
qed

lemma np_std_three_tenths: "np_std [1 / 10, 1 / 10, 1 / 10] = 1 / 2 ^ 56"
proof -
  have m: "fl (1351079888211149 / 2 ^ 52 / 3) = 7205759403792795 / 2 ^ 56"
    by (simp add: fl_eval)
  have d: "fl (3602879701896397 / 2 ^ 55 - 7205759403792795 / 2 ^ 56) = - (1 / 2 ^ 56)"
    by (simp add: fl_eval)
  have q: "fl (- (1 / 2 ^ 56) * - (1 / 2 ^ 56)) = 1 / 2 ^ 112"
    by (simp add: fl_eval)
  have 1: "fl (0 + 1 / 2 ^ 112) = 1 / 2 ^ 112"
    by (simp add: fl_eval)
  have 2: "fl (1 / 2 ^ 112 + 1 / 2 ^ 112) = 1 / 2 ^ 111"
    by (simp add: fl_eval)
  have 3: "fl (1 / 2 ^ 111 + 1 / 2 ^ 112) = 3 / 2 ^ 112"
    by (simp add: fl_eval)
  have s: "pairwise_sum [1 / 2 ^ 112, 1 / 2 ^ 112, 1 / 2 ^ 112] = 3 / 2 ^ 112"
    by (simp only: pairwise_sum.simps [of "[_, _, _]"] fadd_def foldl.simps 1 2 3) simp
  have v: "fl (3 / 2 ^ 112 / 3) = 1 / 2 ^ 112"
    by (simp add: fl_eval)
  have r: "sqrt (1 / 2 ^ 112) = 1 / 2 ^ 56"
    by (rule real_sqrt_unique) (simp_all add: power2_eq_square)
  have f: "fl (1 / 2 ^ 56) = 1 / 2 ^ 56"
    by (simp add: fl_eval)
  have l: "real (length [1 / 10, 1 / 10, 1 / 10 :: real]) = 3" by simp
  show ?thesis
    unfolding np_std_def np_array_def fdiv_def fsub_def fmul_def fsqrt_def Let_def list.map
              fl_tenth sum_three_tenths l m d q s v r f
    by (rule refl)
qed

lemma round_half_even_up:
  assumes "\<lfloor>y\<rfloor> = n" and "of_int n + 1 / 2 < y"
  shows "round_half_even y = n + 1"
  using assms by (auto simp: round_half_even_def Let_def)

text \<open>The double of the square root of 252.\<close>

lemma fsqrt_252: "fsqrt 252 = 8936553463969119 / 2 ^ 49"
proof -
  let ?x = "sqrt 252"
  let ?y = "?x * 2 ^ 49"
  have lo: "15 \<le> ?x" by (rule real_le_rsqrt) simp
  have hi: "?x < 16" by (rule real_less_lsqrt) simp_all
  from lo hi have f: "\<lfloor>?x\<rfloor> = 15" by linarith
  from lo have b: "binade \<bar>?x\<bar> = 3"
    by (simp add: binade_def f compute_bitlen)
  have "(8936553463969118 + 1 / 2) / 2 ^ 49 < ?x"
    by (rule real_less_rsqrt) (simp add: power2_eq_square)
  then have y1: "8936553463969118 + 1 / 2 < ?y" by (simp add: field_simps)
  have "?x < 8936553463969119 / 2 ^ 49"
    by (rule real_less_lsqrt) (simp_all add: power2_eq_square)
  then have y2: "?y < 8936553463969119" by (simp add: field_simps)
  from y1 y2 have n: "\<lfloor>?y\<rfloor> = 8936553463969118" by linarith
  have r0: "round_half_even ?y = 8936553463969118 + 1"
    by (rule round_half_even_up [OF n]) (use y1 in simp)
  have k: "(8936553463969118::int) + 1 = 8936553463969119" by simp
  note r = r0 [unfolded k]
  have "(2::real) powi (3 - 52) = 2 powi (- 49)" by simp
  also have "\<dots> = inverse (2 powi 49)" by (rule power_int_minus)
  also have "\<dots> = 1 / 2 ^ 49" by (simp add: inverse_eq_divide)
  finally have pw: "(2::real) powi (3 - 52) = 1 / 2 ^ 49" .
  from lo have a: "\<bar>?x\<bar> = ?x" by simp
  have e: "\<bar>?x\<bar> / 2 powi (3 - 52) = ?y"
    unfolding a pw by simp
  from lo have nz: "?x \<noteq> 0" and sg: "sgn ?x = 1" by simp_all
  have "fl ?x = sgn ?x * (of_int (round_half_even (\<bar>?x\<bar> / 2 powi (3 - 52))) * 2 powi (3 - 52))"
    using nz by (simp only: fl_def b Let_def if_False)
  also have "\<dots> = 1 * (of_int 8936553463969119 * (2::real) powi (3 - 52))"
    by (simp only: e r sg)
  also have "\<dots> = 8936553463969119 / 2 ^ 49"
    unfolding pw by simp
  finally show ?thesis by (simp only: fsqrt_def)
qed

text \<open>
  The Sharpe ratio the code computes from the mean and the deviation of three returns of
  one tenth.
\<close>

lemma sharpe_three_tenths:
  "fmul (fdiv (7205759403792795 / 2 ^ 56) (1 / 2 ^ 56)) (fsqrt 252) = 114387884338804752"
proof -
  have q: "fl (7205759403792795 / 2 ^ 56 / (1 / 2 ^ 56)) = 7205759403792795"
    by (simp add: fl_eval)
  have p: "fl (7205759403792795 * (8936553463969119 / 2 ^ 49)) = 114387884338804752"
    by (simp add: fl_eval)
  show ?thesis
    unfolding fmul_def fdiv_def fsqrt_252 q p by (rule refl)
qed


subsection \<open>Drawdown, Sharpe ratio and counts\<close>

lemma Max_insert_max:
  fixes a b :: real
  shows "finite S \<Longrightarrow> Max (insert (max a b) S) = max a (Max (insert b S))"
  by (cases "S = {}") (simp_all add: max.assoc)

lemma drawdown_loop_max:
  "drawdown_loop peak m values = Some d \<Longrightarrow> d = Max (set (m # drawdowns peak values))"
proof (induction "values" arbitrary: peak m)
  case Nil
  then show ?case by simp
next
  case (Cons v "values")
  let ?p = "max peak v"
  let ?dd = "(?p - v) / ?p * 100"
  have p: "(if v > peak then v else peak) = ?p" by (simp add: max_def)
  from Cons.prems have "drawdown_loop ?p (max m ?dd) values = Some d"
    by (simp add: p Let_def split: if_splits)
  then have "d = Max (set (max m ?dd # drawdowns ?p values))"
    by (rule Cons.IH)
  also have "\<dots> = Max (set (m # drawdowns peak (v # values)))"
    using Max_insert_max [of "set (drawdowns ?p values)" m ?dd] by simp
  finally show ?case .
qed

lemma drawdown_loop_lower: "drawdown_loop peak m values = Some d \<Longrightarrow> m \<le> d"
  using drawdown_loop_max [of peak m "values" d] by simp

lemma metrics_drawdown_nonneg:
  "0 \<le> m_max_drawdown (calculate_metrics trade_history initial_balance final_balance equity_curve)"
  by (auto simp: calculate_metrics_def zero_metrics_def Let_def
           split: option.splits dest: drawdown_loop_lower)

lemma metrics_sharpe_empty:
  "m_sharpe_ratio (calculate_metrics [] initial_balance final_balance equity_curve) = 0
   \<and> m_max_drawdown (calculate_metrics [] initial_balance final_balance equity_curve) = 0"
  by (simp add: calculate_metrics_def zero_metrics_def)

lemma metrics_sharpe_zero_deviation:
  assumes "returns_loop (equity_values initial_balance equity_curve) = Some returns"
    and "\<not> 0 < np_std returns"
  shows "m_sharpe_ratio
           (calculate_metrics trade_history initial_balance final_balance equity_curve) = 0"
  using assms
  by (simp add: calculate_metrics_def zero_metrics_def Let_def split: option.splits)

lemma metrics_sharpe_raised:
  assumes "returns_loop (equity_values initial_balance equity_curve) = None"
  shows "m_sharpe_ratio
           (calculate_metrics trade_history initial_balance final_balance equity_curve) = 0"
  using assms
  by (simp add: calculate_metrics_def zero_metrics_def Let_def split: option.splits)

lemma metrics_drawdown_value:
  assumes "trade_history \<noteq> []"
    and "drawdown_loop initial_balance 0 (equity_values initial_balance equity_curve) = Some d"
    and "returns_loop (equity_values initial_balance equity_curve) = Some returns"
  shows "m_max_drawdown
           (calculate_metrics trade_history initial_balance final_balance equity_curve)
         = Max (set (0 # drawdowns initial_balance
                            (equity_values initial_balance equity_curve)))"
proof -
  have h: "hd (equity_values initial_balance equity_curve) = initial_balance"
    by (simp add: equity_values_def)
  have "m_max_drawdown
          (calculate_metrics trade_history initial_balance final_balance equity_curve) = d"
    using assms by (simp add: calculate_metrics_def Let_def h)
  with drawdown_loop_max [OF assms(2)] show ?thesis by simp
qed

lemma count_by_sum: "(\<Sum>t \<leftarrow> xs. Suc 0) = length xs"
  by (induction xs) simp_all

lemma backtest_report_returns:
  assumes "initial_balance \<noteq> 0"
  shows "\<exists>rep. backtest_report trade_history initial_balance balance equity_curve = Inr rep
           \<and> r_max_drawdown rep
               = m_max_drawdown (calculate_metrics trade_history initial_balance balance equity_curve)
           \<and> r_sharpe_ratio rep
               = m_sharpe_ratio (calculate_metrics trade_history initial_balance balance equity_curve)
           \<and> r_total_trades rep = length trade_history
           \<and> r_winning_trades rep = length (filter (\<lambda>t. t_pnl t > 0) trade_history)
           \<and> r_losing_trades rep = length (filter (\<lambda>t. t_pnl t \<le> 0) trade_history)"
  using assms by (simp add: backtest_report_def Let_def count_by_sum)

text \<open>
  What holds of every backtest that returns a report (the initial balance is not zero):
  the max drawdown is not negative; with trades and without a division by zero it is the
  largest of 0 and the drawdowns \<open>(peak - value) / peak * 100\<close> along the equity values
  under the running peak; the Sharpe ratio is 0 when there is no trade and when the
  standard deviation that numpy computes for the per-step returns is not positive.
\<close>

lemma report_drawdown_and_computed_deviation:
  "initial_balance \<noteq> 0 \<longrightarrow>
   (\<exists>rep. backtest_report trade_history initial_balance balance equity_curve = Inr rep
      \<and> 0 \<le> r_max_drawdown rep
      \<and> (trade_history = [] \<longrightarrow> r_sharpe_ratio rep = 0 \<and> r_max_drawdown rep = 0)
      \<and> (\<forall>returns. returns_loop (equity_values initial_balance equity_curve) = Some returns
            \<and> \<not> 0 < np_std returns \<longrightarrow> r_sharpe_ratio rep = 0)
      \<and> (\<forall>d returns. trade_history \<noteq> []
            \<and> drawdown_loop initial_balance 0 (equity_values initial_balance equity_curve) = Some d
            \<and> returns_loop (equity_values initial_balance equity_curve) = Some returns \<longrightarrow>
            r_max_drawdown rep
              = Max (set (0 # drawdowns initial_balance
                                 (equity_values initial_balance equity_curve)))))"
proof
  assume nz: "initial_balance \<noteq> 0"
  let ?m = "calculate_metrics trade_history initial_balance balance equity_curve"
  from backtest_report_returns [OF nz] obtain rep where
    rep: "backtest_report trade_history initial_balance balance equity_curve = Inr rep"
    and dd: "r_max_drawdown rep = m_max_drawdown ?m"
    and sh: "r_sharpe_ratio rep = m_sharpe_ratio ?m"
    by blast
  have 1: "0 \<le> r_max_drawdown rep"
    unfolding dd by (rule metrics_drawdown_nonneg)
  have 2: "trade_history = [] \<longrightarrow> r_sharpe_ratio rep = 0 \<and> r_max_drawdown rep = 0"
    unfolding dd sh using metrics_sharpe_empty by blast
  have 3: "\<forall>returns. returns_loop (equity_values initial_balance equity_curve) = Some returns
            \<and> \<not> 0 < np_std returns \<longrightarrow> r_sharpe_ratio rep = 0"
    unfolding sh using metrics_sharpe_zero_deviation by blast
  have 4: "\<forall>d returns. trade_history \<noteq> []
            \<and> drawdown_loop initial_balance 0 (equity_values initial_balance equity_curve) = Some d
            \<and> returns_loop (equity_values initial_balance equity_curve) = Some returns \<longrightarrow>
            r_max_drawdown rep
              = Max (set (0 # drawdowns initial_balance
                                 (equity_values initial_balance equity_curve)))"
    unfolding dd using metrics_drawdown_value by blast
  from rep 1 2 3 4
  show "\<exists>rep. backtest_report trade_history initial_balance balance equity_curve = Inr rep
      \<and> 0 \<le> r_max_drawdown rep
      \<and> (trade_history = [] \<longrightarrow> r_sharpe_ratio rep = 0 \<and> r_max_drawdown rep = 0)
      \<and> (\<forall>returns. returns_loop (equity_values initial_balance equity_curve) = Some returns
            \<and> \<not> 0 < np_std returns \<longrightarrow> r_sharpe_ratio rep = 0)
      \<and> (\<forall>d returns. trade_history \<noteq> []
            \<and> drawdown_loop initial_balance 0 (equity_values initial_balance equity_curve) = Some d
            \<and> returns_loop (equity_values initial_balance equity_curve) = Some returns \<longrightarrow>
            r_max_drawdown rep
              = Max (set (0 # drawdowns initial_balance
                                 (equity_values initial_balance equity_curve))))"
    by blast
qed

text \<open>Two equal returns: their mean is exact in double precision and the deviation is 0.\<close>

lemma np_std_two_tenths: "np_std [1 / 10, 1 / 10] = 0"
proof -
  have 1: "fl (0 + 3602879701896397 / 2 ^ 55) = 3602879701896397 / 2 ^ 55"
    by (simp add: fl_eval)
  have 2: "fl (3602879701896397 / 2 ^ 55 + 3602879701896397 / 2 ^ 55) = 3602879701896397 / 2 ^ 54"
    by (simp add: fl_eval)
  have s: "pairwise_sum [3602879701896397 / 2 ^ 55, 3602879701896397 / 2 ^ 55]
             = 3602879701896397 / 2 ^ 54"
    by (simp only: pairwise_sum.simps [of "[_, _]"] fadd_def foldl.simps 1 2) simp
  have m: "fl (3602879701896397 / 2 ^ 54 / 2) = 3602879701896397 / 2 ^ 55"
    by (simp add: fl_eval)
  have d: "fl (3602879701896397 / 2 ^ 55 - 3602879701896397 / 2 ^ 55) = 0"
    by (simp add: fl_def)
  have q: "fl (0 * 0) = 0" by (simp add: fl_def)
  have z: "pairwise_sum [0, 0] = 0"
    by (simp add: pairwise_sum.simps [of "[_, _]"] fadd_def fl_def)
  have v: "fl (0 / 2) = 0" by (simp add: fl_def)
  have r: "fl (sqrt 0) = 0" by (simp add: fl_def)
  have l: "real (length [1 / 10, 1 / 10 :: real]) = 2" by simp
  show ?thesis
    unfolding np_std_def np_array_def fdiv_def fsub_def fmul_def fsqrt_def Let_def list.map
              fl_tenth s l m d q z v r
    by (rule refl)
qed

text \<open>
  The three returns of the steady gain, each computed in double precision from the equity
  values as the report does, are the double nearest to one tenth.
\<close>

lemma steady_gain_returns_in_double:
  "fdiv (fsub 1100 1000) 1000 = fl (1 / 10)"
  "fdiv (fsub 1210 1100) 1100 = fl (1 / 10)"
  "fdiv (fsub 1331 1210) 1210 = fl (1 / 10)"
proof -
  have "fl 100 = 100" "fl 110 = 110" "fl 121 = 121"
    by (simp_all add: fl_eval)
  then show "fdiv (fsub 1100 1000) 1000 = fl (1 / 10)"
    "fdiv (fsub 1210 1100) 1100 = fl (1 / 10)"
    "fdiv (fsub 1331 1210) 1210 = fl (1 / 10)"
    by (simp_all add: fdiv_def fsub_def)
qed

text \<open>
  With trades, no division by zero and a computed deviation above 0, the reported Sharpe
  ratio is the computed mean over the computed deviation, times the root of 252, each
  step in double precision.
\<close>

lemma metrics_sharpe_computed:
  assumes "trade_history \<noteq> []"
    and "drawdown_loop initial_balance 0 (equity_values initial_balance equity_curve) = Some d"
    and "returns_loop (equity_values initial_balance equity_curve) = Some returns"
    and "returns \<noteq> []" and "0 < np_std returns"
  shows "m_sharpe_ratio
           (calculate_metrics trade_history initial_balance final_balance equity_curve)
         = fmul (fdiv (np_mean returns) (np_std returns)) (fsqrt 252)"
    and "m_max_drawdown
           (calculate_metrics trade_history initial_balance final_balance equity_curve) = d"
proof -
  have h: "hd (equity_values initial_balance equity_curve) = initial_balance"
    by (simp add: equity_values_def)
  show "m_sharpe_ratio
           (calculate_metrics trade_history initial_balance final_balance equity_curve)
         = fmul (fdiv (np_mean returns) (np_std returns)) (fsqrt 252)"
    using assms by (simp add: calculate_metrics_def Let_def h)
  show "m_max_drawdown
           (calculate_metrics trade_history initial_balance final_balance equity_curve) = d"
    using assms by (simp add: calculate_metrics_def Let_def h)
qed

text \<open>
  C8 at three trades that gain ten percent each from a balance of 1000: the equity values
  are 1000, 1100, 1210 and 1331 and every per-step return is one tenth, so the return
  series has no deviation.  The mean of three doubles of one tenth that numpy computes
  lies one unit in the last place above them, the computed deviation is
  \<open>1 / 2 ^ 56\<close>, which is positive, and the reported Sharpe ratio is
  114387884338804752, about \<open>1.14 * 10 ^ 17\<close>, not 0.  The max drawdown of the same
  report is 0.
\<close>

theorem constant_returns_sharpe_not_zero:
  "returns_loop (equity_values 1000 [equity_at 1100 100, equity_at 1210 110, equity_at 1331 121])
     = Some [1 / 10, 1 / 10, 1 / 10]
   \<and> np_mean [1 / 10, 1 / 10, 1 / 10] = 7205759403792795 / 2 ^ 56
   \<and> np_std [1 / 10, 1 / 10, 1 / 10] = 1 / 2 ^ 56
   \<and> (case backtest_report [trade_with_pnl 100, trade_with_pnl 110, trade_with_pnl 121]
              1000 1331 [equity_at 1100 100, equity_at 1210 110, equity_at 1331 121] of
          Inl e \<Rightarrow> False
        | Inr rep \<Rightarrow> r_sharpe_ratio rep = 114387884338804752 \<and> r_max_drawdown rep = 0)"
proof -
  let ?th = "[trade_with_pnl 100, trade_with_pnl 110, trade_with_pnl 121]"
  let ?ec = "[equity_at 1100 100, equity_at 1210 110, equity_at 1331 121]"
  have v: "equity_values 1000 ?ec = [1000, 1100, 1210, 1331]"
    by (simp add: equity_values_def equity_at_def)
  have d: "drawdown_loop 1000 0 (equity_values 1000 ?ec) = Some 0"
    unfolding v by simp
  have r: "returns_loop (equity_values 1000 ?ec) = Some [1 / 10, 1 / 10, 1 / 10]"
    unfolding v by simp
  have p: "0 < np_std [1 / 10, 1 / 10, 1 / 10]"
    unfolding np_std_three_tenths by simp
  have "m_sharpe_ratio (calculate_metrics ?th 1000 1331 ?ec)
          = fmul (fdiv (np_mean [1 / 10, 1 / 10, 1 / 10]) (np_std [1 / 10, 1 / 10, 1 / 10]))
              (fsqrt 252)"
    by (rule metrics_sharpe_computed (1) [OF _ d r _ p]) simp_all
  also have "\<dots> = 114387884338804752"
    unfolding np_mean_three_tenths np_std_three_tenths by (rule sharpe_three_tenths)
  finally have s: "m_sharpe_ratio (calculate_metrics ?th 1000 1331 ?ec) = 114387884338804752" .
  have m: "m_max_drawdown (calculate_metrics ?th 1000 1331 ?ec) = 0"
    by (rule metrics_sharpe_computed (2) [OF _ d r _ p]) simp_all
  have "backtest_report ?th 1000 1331 ?ec = Inr rep \<Longrightarrow>
          r_sharpe_ratio rep = 114387884338804752 \<and> r_max_drawdown rep = 0" for rep
    using s m by (auto simp: backtest_report_def Let_def)
  moreover have "\<exists>rep. backtest_report ?th 1000 1331 ?ec = Inr rep"
    using backtest_report_returns [of 1000 ?th 1331 ?ec] by auto
  ultimately have
    "(case backtest_report ?th 1000 1331 ?ec of
        Inl e \<Rightarrow> False
      | Inr rep \<Rightarrow> r_sharpe_ratio rep = 114387884338804752 \<and> r_max_drawdown rep = 0)"
    by (auto split: sum.splits)
  with r np_mean_three_tenths np_std_three_tenths show ?thesis by (simp only: simp_thms)
qed

text \<open>
  A gain to 1100 and a loss to 990 from a balance of 1000: the drawdown is 10 percent of
  the peak 1100.  Two gains of ten percent: the computed deviation of the two returns is
  0 and so is the Sharpe ratio.
\<close>

lemma report_examples:
  "\<exists>rep. backtest_report [trade_with_pnl 100, trade_with_pnl (- 110)] 1000 990
            [equity_at 1100 100, equity_at 990 (- 110)] = Inr rep
     \<and> r_max_drawdown rep = 10"
  "\<exists>rep. backtest_report [trade_with_pnl 100, trade_with_pnl 110] 1000 1210
            [equity_at 1100 100, equity_at 1210 110] = Inr rep
     \<and> r_sharpe_ratio rep = 0"
proof -
  let ?ec1 = "[equity_at 1100 100, equity_at 1210 110]"
  let ?ec2 = "[equity_at 1100 100, equity_at 990 (- 110)]"
  have d2: "drawdown_loop 1000 0 (equity_values 1000 ?ec2) = Some 10"
    by (simp add: equity_values_def equity_at_def)
  have r2: "returns_loop (equity_values 1000 ?ec2) = Some [1 / 10, - (1 / 10)]"
    by (simp add: equity_values_def equity_at_def)
  have m2: "Max (set (0 # drawdowns 1000 (equity_values 1000 ?ec2))) = 10"
    by (simp add: equity_values_def equity_at_def)
  show "\<exists>rep. backtest_report [trade_with_pnl 100, trade_with_pnl (- 110)] 1000 990 ?ec2 = Inr rep
      \<and> r_max_drawdown rep = 10"
    using report_drawdown_and_computed_deviation
            [of 1000 "[trade_with_pnl 100, trade_with_pnl (- 110)]" 990 ?ec2] d2 r2 m2
    by force
  have r1: "returns_loop (equity_values 1000 ?ec1) = Some [1 / 10, 1 / 10]"
    by (simp add: equity_values_def equity_at_def)
  have s1: "\<not> 0 < np_std [1 / 10, 1 / 10]"
    by (simp add: np_std_two_tenths)
  show "\<exists>rep. backtest_report [trade_with_pnl 100, trade_with_pnl 110] 1000 1210 ?ec1 = Inr rep
      \<and> r_sharpe_ratio rep = 0"
    using report_drawdown_and_computed_deviation
            [of 1000 "[trade_with_pnl 100, trade_with_pnl 110]" 1210 ?ec1] r1 s1
    by force
qed

lemma metrics_gross:
  assumes "trade_history \<noteq> []"
    and "drawdown_loop initial_balance 0 (equity_values initial_balance equity_curve) = Some d"
    and "returns_loop (equity_values initial_balance equity_curve) = Some returns"
  shows "m_gross_profit (calculate_metrics trade_history initial_balance balance equity_curve)
           = Some (sum_list (filter (\<lambda>pnl. pnl > 0) (map t_pnl trade_history)))
         \<and> m_gross_loss (calculate_metrics trade_history initial_balance balance equity_curve)
           = Some \<bar>sum_list (filter (\<lambda>pnl. pnl \<le> 0) (map t_pnl trade_history))\<bar>"
proof -
  have h: "hd (equity_values initial_balance equity_curve) = initial_balance"
    by (simp add: equity_values_def)
  show ?thesis
    using assms by (simp add: calculate_metrics_def Let_def h)
qed

text \<open>
  C10. In every report the winning trades are those with a positive result and the
  losing trades those with a result at or below zero, so a trade with result zero is a
  losing one, and the two counts add up to the total; the gross profit and the gross
  loss of the metrics are split in the same way.
\<close>

theorem report_trade_counts:
  "initial_balance \<noteq> 0 \<longrightarrow>
   (\<exists>rep. backtest_report trade_history initial_balance balance equity_curve = Inr rep
      \<and> r_total_trades rep = length trade_history
      \<and> r_winning_trades rep = length (filter (\<lambda>t. t_pnl t > 0) trade_history)
      \<and> r_losing_trades rep = length (filter (\<lambda>t. t_pnl t \<le> 0) trade_history)
      \<and> r_winning_trades rep + r_losing_trades rep = r_total_trades rep
      \<and> (\<forall>d returns. trade_history \<noteq> []
            \<and> drawdown_loop initial_balance 0 (equity_values initial_balance equity_curve) = Some d
            \<and> returns_loop (equity_values initial_balance equity_curve) = Some returns \<longrightarrow>
            m_gross_profit (r_metrics rep)
              = Some (sum_list (filter (\<lambda>pnl. pnl > 0) (map t_pnl trade_history)))
            \<and> m_gross_loss (r_metrics rep)
              = Some \<bar>sum_list (filter (\<lambda>pnl. pnl \<le> 0) (map t_pnl trade_history))\<bar>))"
proof
  assume nz: "initial_balance \<noteq> 0"
  let ?rep = "\<lambda>rep. backtest_report trade_history initial_balance balance equity_curve = Inr rep"
  from backtest_report_returns [OF nz] obtain rep where
    rep: "?rep rep"
    and tot: "r_total_trades rep = length trade_history"
    and win: "r_winning_trades rep = length (filter (\<lambda>t. t_pnl t > 0) trade_history)"
    and los: "r_losing_trades rep = length (filter (\<lambda>t. t_pnl t \<le> 0) trade_history)"
    by blast
  have c: "(\<lambda>t. t_pnl t \<le> 0) = (\<lambda>t. \<not> t_pnl t > 0)" by (simp add: not_less)
  have sum: "r_winning_trades rep + r_losing_trades rep = r_total_trades rep"
    unfolding tot win los c by (rule sum_length_filter_compl)
  from rep nz have met: "r_metrics rep
           = calculate_metrics trade_history initial_balance balance equity_curve"
    by (auto simp: backtest_report_def Let_def)
  have gross: "\<forall>d returns. trade_history \<noteq> []
            \<and> drawdown_loop initial_balance 0 (equity_values initial_balance equity_curve) = Some d
            \<and> returns_loop (equity_values initial_balance equity_curve) = Some returns \<longrightarrow>
            m_gross_profit (r_metrics rep)
              = Some (sum_list (filter (\<lambda>pnl. pnl > 0) (map t_pnl trade_history)))
            \<and> m_gross_loss (r_metrics rep)
              = Some \<bar>sum_list (filter (\<lambda>pnl. pnl \<le> 0) (map t_pnl trade_history))\<bar>"
    unfolding met using metrics_gross by blast
  from rep tot win los sum gross
  show "\<exists>rep. backtest_report trade_history initial_balance balance equity_curve = Inr rep
      \<and> r_total_trades rep = length trade_history
      \<and> r_winning_trades rep = length (filter (\<lambda>t. t_pnl t > 0) trade_history)
      \<and> r_losing_trades rep = length (filter (\<lambda>t. t_pnl t \<le> 0) trade_history)
      \<and> r_winning_trades rep + r_losing_trades rep = r_total_trades rep
      \<and> (\<forall>d returns. trade_history \<noteq> []
            \<and> drawdown_loop initial_balance 0 (equity_values initial_balance equity_curve) = Some d
            \<and> returns_loop (equity_values initial_balance equity_curve) = Some returns \<longrightarrow>
            m_gross_profit (r_metrics rep)
              = Some (sum_list (filter (\<lambda>pnl. pnl > 0) (map t_pnl trade_history)))
            \<and> m_gross_loss (r_metrics rep)
              = Some \<bar>sum_list (filter (\<lambda>pnl. pnl \<le> 0) (map t_pnl trade_history))\<bar>)"
    by blast
qed

text \<open>
  Three trades with the results 100, 0 and -50 from a balance of 1000: one winning trade,
  two losing trades, the trade without result among them; gross profit 100, gross loss 50.
\<close>

theorem report_trade_counts_witness:
  "\<exists>rep. backtest_report [trade_with_pnl 100, trade_with_pnl 0, trade_with_pnl (- 50)] 1000 1050
            [equity_at 1100 100, equity_at 1100 0, equity_at 1050 (- 50)] = Inr rep
     \<and> r_total_trades rep = 3 \<and> r_winning_trades rep = 1 \<and> r_losing_trades rep = 2
     \<and> m_gross_profit (r_metrics rep) = Some 100 \<and> m_gross_loss (r_metrics rep) = Some 50"
proof -
  let ?th = "[trade_with_pnl 100, trade_with_pnl 0, trade_with_pnl (- 50)]"
  let ?ec = "[equity_at 1100 100, equity_at 1100 0, equity_at 1050 (- 50)]"
  have d: "drawdown_loop 1000 0 (equity_values 1000 ?ec) = Some (50 / 11)"
    by (simp add: equity_values_def equity_at_def)
  have r: "returns_loop (equity_values 1000 ?ec) = Some [1 / 10, 0, - (1 / 22)]"
    by (simp add: equity_values_def equity_at_def)
  have nz: "(1000::real) \<noteq> 0" by simp
  from report_trade_counts [of 1000 ?th 1050 ?ec] nz obtain rep where
    rep: "backtest_report ?th 1000 1050 ?ec = Inr rep"
    and tot: "r_total_trades rep = length ?th"
    and win: "r_winning_trades rep = length (filter (\<lambda>t. t_pnl t > 0) ?th)"
    and los: "r_losing_trades rep = length (filter (\<lambda>t. t_pnl t \<le> 0) ?th)"
    and gross: "\<forall>d returns. ?th \<noteq> []
            \<and> drawdown_loop 1000 0 (equity_values 1000 ?ec) = Some d
            \<and> returns_loop (equity_values 1000 ?ec) = Some returns \<longrightarrow>
            m_gross_profit (r_metrics rep)
              = Some (sum_list (filter (\<lambda>pnl. pnl > 0) (map t_pnl ?th)))
            \<and> m_gross_loss (r_metrics rep)
              = Some \<bar>sum_list (filter (\<lambda>pnl. pnl \<le> 0) (map t_pnl ?th))\<bar>"
    by blast
  from gross d r have g: "m_gross_profit (r_metrics rep)
              = Some (sum_list (filter (\<lambda>pnl. pnl > 0) (map t_pnl ?th)))
            \<and> m_gross_loss (r_metrics rep)
              = Some \<bar>sum_list (filter (\<lambda>pnl. pnl \<le> 0) (map t_pnl ?th))\<bar>"
    by blast
  from tot win los g have "r_total_trades rep = 3 \<and> r_winning_trades rep = 1
     \<and> r_losing_trades rep = 2
     \<and> m_gross_profit (r_metrics rep) = Some 100 \<and> m_gross_loss (r_metrics rep) = Some 50"
    by (simp add: trade_with_pnl_def)
  with rep show ?thesis by blast
qed

section \<open>Properties of live execution\<close>

lemma place_loop_trace:
  "snd (place_loop api trace orders reqs) = trace @ map PlaceOrder reqs"
  by (induction reqs arbitrary: trace orders) (simp_all split: sum.splits)

lemma place_entry_orders_trace:
  "snd (place_entry_orders api trace symbol position_type entry_zones total_size s)
     = trace @ map PlaceOrder (entry_requests symbol position_type entry_zones total_size s)"
  by (simp add: place_entry_orders_def place_loop_trace entry_requests_def)

lemma place_target_orders_trace:
  "snd (place_target_orders api trace symbol position_type targets total_size s)
     = trace @ map PlaceOrder (target_requests symbol position_type targets total_size s)"
  by (simp add: place_target_orders_def place_loop_trace target_requests_def)

lemma place_stop_loss_order_trace:
  "snd (place_stop_loss_order api trace symbol position_type stop_loss total_size)
     = trace @ map PlaceOrder (stop_requests symbol position_type stop_loss total_size)"
  by (simp add: place_stop_loss_order_def stop_requests_def split: sum.splits)

text \<open>
  C5. When the leverage call does not raise, the execution reports success and has sent
  every order of the three ladders to the exchange, in the order entries, targets, stop,
  whatever the exchange answers to any of them: a failure of one order neither ends the
  placement of the others nor changes the success flag.
\<close>

theorem execute_signal_places_every_order:
  assumes "api [] (SetLeverage (signal_symbol sd) (sig_leverage sd) (margin_mode sd)) = Inr r"
  shows "\<exists>res trace. execute_signal api (Parsed sd) s = (res, trace)
           \<and> success res
           \<and> trace =
               SetLeverage (signal_symbol sd) (sig_leverage sd) (margin_mode sd) #
               map PlaceOrder
                 (entry_requests (signal_symbol sd) (sig_position_type sd) (sig_entry_zones sd)
                    (x_position_size res) s
                  @ target_requests (signal_symbol sd) (sig_position_type sd) (sig_targets sd)
                      (x_position_size res) s
                  @ stop_requests (signal_symbol sd) (sig_position_type sd) (sig_stop_loss sd)
                      (x_position_size res))
           \<and> x_position_size res =
               trade_manager_calculate_position_size
                 (get_or (default_position_size s) 10) (get_or (risk_percentage s) 2)
                 (first_entry (sig_entry_zones sd)) (sig_stop_loss sd)"
proof -
  let ?call = "SetLeverage (signal_symbol sd) (sig_leverage sd) (margin_mode sd)"
  let ?size = "trade_manager_calculate_position_size
                 (get_or (default_position_size s) 10) (get_or (risk_percentage s) 2)
                 (first_entry (sig_entry_zones sd)) (sig_stop_loss sd)"
  obtain eo t1 where e: "place_entry_orders api [?call] (signal_symbol sd)
      (sig_position_type sd) (sig_entry_zones sd) ?size s = (eo, t1)"
    by (cases "place_entry_orders api [?call] (signal_symbol sd)
      (sig_position_type sd) (sig_entry_zones sd) ?size s")
  obtain to t2 where t: "place_target_orders api t1 (signal_symbol sd)
      (sig_position_type sd) (sig_targets sd) ?size s = (to, t2)"
    by (cases "place_target_orders api t1 (signal_symbol sd)
      (sig_position_type sd) (sig_targets sd) ?size s")
  obtain so t3 where st: "place_stop_loss_order api t2 (signal_symbol sd)
      (sig_position_type sd) (sig_stop_loss sd) ?size = (so, t3)"
    by (cases "place_stop_loss_order api t2 (signal_symbol sd)
      (sig_position_type sd) (sig_stop_loss sd) ?size")
  have t1: "t1 = [?call] @ map PlaceOrder (entry_requests (signal_symbol sd)
      (sig_position_type sd) (sig_entry_zones sd) ?size s)"
    using place_entry_orders_trace [of api "[?call]" "signal_symbol sd" "sig_position_type sd"
            "sig_entry_zones sd" ?size s] e by simp
  have t2: "t2 = t1 @ map PlaceOrder (target_requests (signal_symbol sd)
      (sig_position_type sd) (sig_targets sd) ?size s)"
    using place_target_orders_trace [of api t1 "signal_symbol sd" "sig_position_type sd"
            "sig_targets sd" ?size s] t by simp
  have t3: "t3 = t2 @ map PlaceOrder (stop_requests (signal_symbol sd)
      (sig_position_type sd) (sig_stop_loss sd) ?size)"
    using place_stop_loss_order_trace [of api t2 "signal_symbol sd" "sig_position_type sd"
            "sig_stop_loss sd" ?size] st by simp
  have x: "execute_signal api (Parsed sd) s
             = (Executed (signal_symbol sd) (sig_position_type sd) ?size (sig_leverage sd)
                  eo to so, t3)"
    by (simp add: execute_signal_def Let_def assms e t st)
  show ?thesis
    unfolding x by (simp add: success_def t1 t2 t3)
qed

text \<open>
  The sample signal on the exchange that rejects the second entry order: the result is a
  success, all five calls were made, and the entry orders hold the first answer only.
\<close>

theorem execute_signal_places_every_order_witness:
  "\<exists>res trace. execute_signal rejecting_exchange (Parsed sample_signal) no_settings = (res, trace)
     \<and> success res \<and> length trace = 5
     \<and> x_entry_orders res = [1] \<and> x_target_orders res = [3] \<and> x_stop_order res = Some 4"
proof -
  have a: "rejecting_exchange []
             (SetLeverage (signal_symbol sample_signal) (sig_leverage sample_signal)
                (margin_mode sample_signal)) = Inr 0"
    by (simp add: rejecting_exchange_def)
  from execute_signal_places_every_order
         [where api = rejecting_exchange and sd = sample_signal and s = no_settings
            and r = 0, OF a]
  obtain res trace where
    x: "execute_signal rejecting_exchange (Parsed sample_signal) no_settings = (res, trace)"
    and ok: "success res"
    and tr: "trace =
               SetLeverage (signal_symbol sample_signal) (sig_leverage sample_signal)
                 (margin_mode sample_signal) #
               map PlaceOrder
                 (entry_requests (signal_symbol sample_signal) (sig_position_type sample_signal)
                    (sig_entry_zones sample_signal) (x_position_size res) no_settings
                  @ target_requests (signal_symbol sample_signal)
                      (sig_position_type sample_signal) (sig_targets sample_signal)
                      (x_position_size res) no_settings
                  @ stop_requests (signal_symbol sample_signal)
                      (sig_position_type sample_signal) (sig_stop_loss sample_signal)
                      (x_position_size res))"
    by blast
  have len: "length trace = 5"
    unfolding tr
    by (simp add: entry_requests_def target_requests_def stop_requests_def sample_signal_def
                  no_settings_def get_or_def falsy_def Let_def)
  have v: "execute_signal rejecting_exchange (Parsed sample_signal) no_settings
             = (Executed ''BTCUSDT'' (Some ''LONG'') 4 5 [1] [3] (Some 4), trace)"
    using x
    by (auto simp: eval_nat_numeral execute_signal_def sample_signal_def no_settings_def get_or_def
                  signal_symbol_def margin_mode_def first_entry_def rejecting_exchange_def
                  trade_manager_calculate_position_size_def falsy_def
                  place_entry_orders_def place_target_orders_def place_stop_loss_order_def
                  entry_requests_def target_requests_def stop_requests_def Let_def
                  upt_rec)
  from x v have "res = Executed ''BTCUSDT'' (Some ''LONG'') 4 5 [1] [3] (Some 4)" by simp
  with x ok len show ?thesis by simp
qed

end
